theory Spec2Isabelle
  imports Main "HOL-Library.Word"
begin

text \<open>
  A model of the React component \<open>GameApp\<close> of the number-guessing game: its state
  variables, the refresh of the player's data from the contract, and the handlers for
  joining, guessing and decrypting. The wallet, the chain, the cipher engine and the
  decryption authority are outside the component; what they answer is an argument of each
  function, and what the component asks of them is returned as a list of calls.
\<close>

section \<open>JavaScript strings and numbers\<close>

text \<open>
  A JavaScript string is a sequence of UTF-16 code units. The status messages of the
  component start with pictographs outside ASCII, so they are written here by their code
  units; \<open>ascii\<close> embeds the ASCII part of a literal.
\<close>

type_synonym code_unit = "16 word"
type_synonym jsstring = "code_unit list"
type_synonym bytes = "8 word list"

definition ascii :: "string \<Rightarrow> jsstring" where
  "ascii s = map of_char s"

text \<open>
  Truthiness of a value of type \<open>string | null | undefined\<close>: \<open>None\<close> stands for
  \<open>null\<close> and \<open>undefined\<close>, and the empty string is falsy as well.
\<close>

definition truthy :: "jsstring option \<Rightarrow> bool" where
  "truthy v = (case v of None \<Rightarrow> False | Some s \<Rightarrow> s \<noteq> [])"

text \<open>
  A Number is NaN, an infinity or a finite double. A finite double is a dyadic rational:
  \<open>Finite m k\<close> is \<open>m / 2 ^ k\<close>, kept in lowest terms (\<open>k = 0\<close> or \<open>m\<close> odd).
  The two zeros are not told apart: no operation of the component distinguishes them.
\<close>

datatype jsnum = NaN | PosInf | NegInf | Finite int nat

text \<open>\<open>Number.isInteger\<close>.\<close>

definition isInteger :: "jsnum \<Rightarrow> bool" where
  "isInteger x = (case x of Finite m k \<Rightarrow> 2 ^ k dvd m | _ \<Rightarrow> False)"

text \<open>The operator \<open><\<close> on Numbers; \<open>a > b\<close> is \<open>b < a\<close>. A comparison with NaN is false.\<close>

definition js_less :: "jsnum \<Rightarrow> jsnum \<Rightarrow> bool" where
  "js_less x y =
     (case (x, y) of
        (NaN, _) \<Rightarrow> False
      | (_, NaN) \<Rightarrow> False
      | (PosInf, _) \<Rightarrow> False
      | (_, NegInf) \<Rightarrow> False
      | (NegInf, _) \<Rightarrow> True
      | (_, PosInf) \<Rightarrow> True
      | (Finite m k, Finite m' k') \<Rightarrow> m * 2 ^ k' < m' * 2 ^ k)"

subsection \<open>Rounding an exact value to a double\<close>

fun bitLength :: "nat \<Rightarrow> nat" where
  "bitLength n = (if n = 0 then 0 else Suc (bitLength (n div 2)))"

declare bitLength.simps [simp del]

fun dyadic :: "nat \<Rightarrow> nat \<Rightarrow> nat \<times> nat" where
  "dyadic m k = (if k = 0 \<or> odd m then (m, k) else dyadic (m div 2) (k - 1))"

declare dyadic.simps [simp del]

text \<open>The integer nearest to \<open>n / d\<close>, a tie going to the even neighbour.\<close>

definition roundHalfEven :: "nat \<Rightarrow> nat \<Rightarrow> nat" where
  "roundHalfEven n d =
     (let q = n div d; r = n mod d
      in if 2 * r < d then q
         else if d < 2 * r then q + 1
         else if even q then q else q + 1)"

text \<open>The exponent \<open>e\<close> with \<open>2 ^ e \<le> n / d < 2 ^ (e + 1)\<close>, for positive \<open>n\<close> and \<open>d\<close>.\<close>

definition floorLog2 :: "nat \<Rightarrow> nat \<Rightarrow> int" where
  "floorLog2 n d =
     (let k = int (bitLength n) - int (bitLength d)
      in if (if 0 \<le> k then d * 2 ^ nat k \<le> n else d \<le> n * 2 ^ nat (- k)) then k else k - 1)"

text \<open>
  The double nearest to \<open>\<plusminus> n / d\<close> (binary64: 53 significant bits, least exponent
  \<open>-1022\<close>, ties to even, an infinity from \<open>2 ^ 1024\<close> on).
\<close>

definition toDouble :: "bool \<Rightarrow> nat \<Rightarrow> nat \<Rightarrow> jsnum" where
  "toDouble neg n d =
     (if n = 0 then Finite 0 0
      else
        let p = max (floorLog2 n d) (- 1022) - 52;
            m = (if 0 \<le> p then roundHalfEven n (d * 2 ^ nat p)
                 else roundHalfEven (n * 2 ^ nat (- p)) d)
        in if 0 \<le> p then
             (if 2 ^ 1024 \<le> m * 2 ^ nat p then (if neg then NegInf else PosInf)
              else Finite ((if neg then - 1 else 1) * int (m * 2 ^ nat p)) 0)
           else
             (case dyadic m (nat (- p)) of
                (m', k) \<Rightarrow> Finite ((if neg then - 1 else 1) * int m') k))"

text \<open>\<open>Number(b)\<close> for a bigint \<open>b\<close>.\<close>

definition Number_of_bigint :: "int \<Rightarrow> jsnum" where
  "Number_of_bigint b = toDouble (b < 0) (nat \<bar>b\<bar>) 1"

subsection \<open>\<open>String.prototype.trim\<close> and \<open>Number\<close> of a string\<close>

text \<open>White space and line terminators, as \<open>trim\<close> and the numeric grammar strip them.\<close>

definition isWhiteSpace :: "code_unit \<Rightarrow> bool" where
  "isWhiteSpace c \<longleftrightarrow>
     c \<in> {0x0009, 0x000A, 0x000B, 0x000C, 0x000D, 0x0020, 0x00A0, 0x1680,
          0x2028, 0x2029, 0x202F, 0x205F, 0x3000, 0xFEFF}
     \<or> (0x2000 \<le> c \<and> c \<le> 0x200A)"

definition trim :: "jsstring \<Rightarrow> jsstring" where
  "trim s = rev (dropWhile isWhiteSpace (rev (dropWhile isWhiteSpace s)))"

definition digitValue :: "code_unit \<Rightarrow> nat option" where
  "digitValue c =
     (if 0x30 \<le> c \<and> c \<le> 0x39 then Some (unat c - 0x30)
      else if 0x61 \<le> c \<and> c \<le> 0x7A then Some (unat c - 0x61 + 10)
      else if 0x41 \<le> c \<and> c \<le> 0x5A then Some (unat c - 0x41 + 10)
      else None)"

definition isDigit :: "nat \<Rightarrow> code_unit \<Rightarrow> bool" where
  "isDigit base c = (case digitValue c of None \<Rightarrow> False | Some d \<Rightarrow> d < base)"

definition digitsValue :: "nat \<Rightarrow> jsstring \<Rightarrow> nat" where
  "digitsValue base ds =
     foldl (\<lambda>a c. a * base + (case digitValue c of None \<Rightarrow> 0 | Some d \<Rightarrow> d)) 0 ds"

text \<open>
  \<open>0x\<close>, \<open>0o\<close> and \<open>0b\<close> literals (either case of the letter): at least one digit of
  the base, no sign.
\<close>

definition nonDecimalLiteral :: "jsstring \<Rightarrow> nat option" where
  "nonDecimalLiteral t =
     (case t of
        z # x # ds \<Rightarrow>
          (let base = (if x = 0x78 \<or> x = 0x58 then 16
                       else if x = 0x6F \<or> x = 0x4F then 8
                       else if x = 0x62 \<or> x = 0x42 then 2 else (0::nat))
           in if z = 0x30 \<and> base \<noteq> 0 \<and> ds \<noteq> [] \<and> list_all (isDigit base) ds
              then Some (digitsValue base ds) else None)
      | _ \<Rightarrow> None)"

text \<open>The exponent part: nothing, or \<open>e\<close> or \<open>E\<close>, an optional sign and decimal digits.\<close>

definition exponentPart :: "jsstring \<Rightarrow> int option" where
  "exponentPart r =
     (case r of
        [] \<Rightarrow> Some 0
      | c # r' \<Rightarrow>
          if c = 0x65 \<or> c = 0x45 then
            (let neg = (case r' of [] \<Rightarrow> False | g # _ \<Rightarrow> g = 0x2D);
                 ds = (case r' of [] \<Rightarrow> [] | g # r'' \<Rightarrow> if g = 0x2D \<or> g = 0x2B then r'' else r')
             in if ds \<noteq> [] \<and> list_all (isDigit 10) ds
                then Some ((if neg then - 1 else 1) * int (digitsValue 10 ds)) else None)
          else None)"

text \<open>
  An unsigned decimal literal: digits, an optional point with optional digits (at least one
  digit on one side of the point) and an exponent part. The result \<open>(m, e)\<close> stands for
  \<open>m * 10 ^ e\<close>.
\<close>

definition unsignedDecimalLiteral :: "jsstring \<Rightarrow> (nat \<times> int) option" where
  "unsignedDecimalLiteral u =
     (let ip = takeWhile (isDigit 10) u; r1 = dropWhile (isDigit 10) u
      in case r1 of
           [] \<Rightarrow> if ip = [] then None else Some (digitsValue 10 ip, 0)
         | c # r \<Rightarrow>
             if c = 0x2E then
               (let fp = takeWhile (isDigit 10) r; r2 = dropWhile (isDigit 10) r
                in if ip = [] \<and> fp = [] then None
                   else map_option (\<lambda>e. (digitsValue 10 (ip @ fp), e - int (length fp)))
                          (exponentPart r2))
             else if ip = [] then None
             else map_option (\<lambda>e. (digitsValue 10 ip, e)) (exponentPart r1))"

text \<open>
  \<open>Number(s)\<close> for a string \<open>s\<close>: white space is stripped at both ends; the empty
  string is 0; a literal of the grammar is rounded to the nearest double; anything else is
  NaN.
\<close>

definition Number_of_string :: "jsstring \<Rightarrow> jsnum" where
  "Number_of_string s =
     (let t = trim s
      in if t = [] then Finite 0 0
         else case nonDecimalLiteral t of
           Some n \<Rightarrow> toDouble False n 1
         | None \<Rightarrow>
             (let neg = (hd t = 0x2D);
                  u = (if hd t = 0x2D \<or> hd t = 0x2B then tl t else t)
              in if u = ascii ''Infinity'' then (if neg then NegInf else PosInf)
                 else case unsignedDecimalLiteral u of
                   None \<Rightarrow> NaN
                 | Some (m, e) \<Rightarrow>
                     if 0 \<le> e then toDouble neg (m * 10 ^ nat e) 1
                     else toDouble neg m (10 ^ nat (- e))))"

section \<open>The component's state and surroundings\<close>

text \<open>
  The constant \<open>ZERO_CIPHERTEXT\<close>: the handle of 32 zero bytes, which the contract
  returns while no result has been computed.
\<close>

definition ZERO_CIPHERTEXT :: jsstring where
  "ZERO_CIPHERTEXT =
     ascii ''0x0000000000000000000000000000000000000000000000000000000000000000''"

text \<open>
  The state variables of \<open>GameApp\<close> (its \<open>useState\<close> cells), with their initial values
  in \<open>initialState\<close>.
\<close>

record state =
  hasJoined :: bool
  round' :: jsnum
  guessValue :: jsstring
  encryptedResult :: "jsstring option"
  lastDecryptedCipher :: "jsstring option"
  feedbackCode :: "jsnum option"
  isJoining :: bool
  isGuessing :: bool
  isDecrypting :: bool
  statusMessage :: "jsstring option"

definition initialState :: state where
  "initialState =
     \<lparr>hasJoined = False, round' = Finite 0 0, guessValue = [], encryptedResult = None,
      lastDecryptedCipher = None, feedbackCode = None, isJoining = False,
      isGuessing = False, isDecrypting = False, statusMessage = None\<rparr>"

text \<open>
  What the hooks and the configuration module give the component during one render: the
  account address, whether a public client and a cipher engine instance exist, whether the
  engine is still loading, and \<open>CONTRACT_ADDRESS\<close>. The configuration module is not part
  of the sources, so the address is a parameter.
\<close>

record env =
  address :: "jsstring option"
  publicClient :: bool
  fheInstance :: bool
  isZamaLoading :: bool
  contractAddress :: "jsstring option"

definition isContractConfigured :: "env \<Rightarrow> bool" where
  "isContractConfigured e = truthy (contractAddress e)"

text \<open>
  A value caught by \<open>catch (err)\<close>: an \<open>Error\<close> with its message, or anything else.
  An awaited call either throws or returns.
\<close>

datatype thrown = Error jsstring | NonError

type_synonym 'a outcome = "thrown + 'a"

definition errorMessage :: "thrown \<Rightarrow> jsstring \<Rightarrow> jsstring" where
  "errorMessage err fallback = (case err of Error m \<Rightarrow> m | NonError \<Rightarrow> fallback)"

text \<open>
  The calls that leave the component: contract reads, the two transactions and the wait
  for their receipts, the cipher engine's operations, the wallet's typed-data signature,
  the decryption request, and \<open>console.error\<close>.
\<close>

datatype view_fn = HasJoined | GetRound | GetLatestResult

datatype call =
    ReadContract view_fn
  | JoinGame
  | EncryptInput jsnum
  | SubmitGuess "bytes option" bytes
  | TxWait
  | GenerateKeypair
  | CreateEIP712
  | SignTypedData
  | UserDecrypt jsstring jsstring
  | ConsoleError jsstring

text \<open>
  An \<open>async\<close> handler runs synchronously up to its first \<open>await\<close>. Its first part
  either returns, or is suspended at the \<open>await\<close> with the values its closure holds; the
  second part runs later, on the state as it is then. Between two events React has
  committed every state update of the earlier one, so a handler reads the current state.
\<close>

datatype 'a phase = Returned | Awaiting 'a

subsection \<open>Status messages\<close>

definition msg_result_ready :: jsstring where
  "msg_result_ready =
     [0xD83D, 0xDD10] @ ascii '' Encrypted result ready. Click decrypt to reveal feedback.''"

definition msg_decrypt_start :: jsstring where
  "msg_decrypt_start = [0xD83D, 0xDD13] @ ascii '' Initiating decryption sequence...''"

definition msg_signer_unavailable :: jsstring where
  "msg_signer_unavailable = ascii ''Wallet signer is not available''"

definition msg_no_value :: jsstring where
  "msg_no_value = ascii ''No decrypted value returned''"

definition msg_bad_format :: jsstring where
  "msg_bad_format = ascii ''Unexpected decrypted format''"

definition msg_decoded :: jsstring where
  "msg_decoded = [0x2705] @ ascii '' Signal decoded successfully.''"

definition msg_decrypt_failed :: jsstring where
  "msg_decrypt_failed = [0x274C] @ ascii '' Decryption protocol failed''"

definition msg_join_no_wallet :: jsstring where
  "msg_join_no_wallet = [0x26A0, 0xFE0F] @ ascii '' Wallet connection required to proceed.''"

definition msg_not_configured :: jsstring where
  "msg_not_configured = [0x26A0, 0xFE0F] @ ascii '' Contract node address not configured.''"

definition msg_join_start :: jsstring where
  "msg_join_start = [0xD83D, 0xDD04] @ ascii '' Initializing session protocol...''"

definition msg_join_done :: jsstring where
  "msg_join_done =
     [0x2705] @ ascii '' Session active. Target encrypted and ready for probing.''"

definition msg_join_failed :: jsstring where
  "msg_join_failed = [0x274C] @ ascii '' Mission initialization failed''"

definition msg_guess_no_wallet :: jsstring where
  "msg_guess_no_wallet =
     [0x26A0, 0xFE0F] @ ascii '' Wallet connection required for probe deployment.''"

definition msg_not_joined :: jsstring where
  "msg_not_joined = [0x26A0, 0xFE0F] @ ascii '' Initialize session before deploying probes.''"

definition msg_invalid_input :: jsstring where
  "msg_invalid_input = [0x274C] @ ascii '' Invalid input. Select digit 1-10.''"

definition msg_engine_offline :: jsstring where
  "msg_engine_offline = [0x26A0, 0xFE0F] @ ascii '' Cipher engine offline. Please wait.''"

definition msg_guess_start :: jsstring where
  "msg_guess_start = [0xD83D, 0xDD10] @ ascii '' Encrypting probe data and transmitting...''"

definition msg_guess_done :: jsstring where
  "msg_guess_done =
     [0x2705] @ ascii '' Probe deployed. Decrypt scan results to view analysis.''"

definition msg_guess_failed :: jsstring where
  "msg_guess_failed = [0x274C] @ ascii '' Probe transmission failed''"

definition msg_no_data :: jsstring where
  "msg_no_data = [0x26A0, 0xFE0F] @ ascii '' No encrypted data available for decryption.''"

section \<open>\<open>refreshPlayerData\<close>\<close>

text \<open>
  The three reads are started together and awaited with \<open>Promise.all\<close>: it resolves to
  the three values when all three resolve, and rejects when one rejects. Which rejection
  it carries depends on timing; the component only logs it, so the first in the array's
  order stands for it.
\<close>

type_synonym reads = "bool outcome \<times> int outcome \<times> jsstring outcome"

definition promiseAll :: "reads \<Rightarrow> (bool \<times> int \<times> jsstring) outcome" where
  "promiseAll rd =
     (case rd of
        (Inr joined, Inr activeRound, Inr latestResult) \<Rightarrow> Inr (joined, activeRound, latestResult)
      | (Inl e, _, _) \<Rightarrow> Inl e
      | (_, Inl e, _) \<Rightarrow> Inl e
      | (_, _, Inl e) \<Rightarrow> Inl e)"

text \<open>The early return, taken without a public client, an address or a contract address.\<close>

definition clearPlayerData :: "state \<Rightarrow> state" where
  "clearPlayerData s =
     s\<lparr>hasJoined := False, round' := Finite 0 0, encryptedResult := None,
       feedbackCode := None, lastDecryptedCipher := None\<rparr>"

text \<open>
  The updater passed to \<open>setEncryptedResult\<close>: it compares the stored handle with the
  new one by \<open>!==\<close> (equality of strings), and on a difference clears the feedback and
  announces a result unless the new handle is falsy or the zero handle.
\<close>

definition updateEncryptedResult :: "jsstring \<Rightarrow> state \<Rightarrow> state" where
  "updateEncryptedResult latestResult s =
     (let previous = encryptedResult s;
          s1 = (if previous \<noteq> Some latestResult then
                  (let s0 = s\<lparr>feedbackCode := None, lastDecryptedCipher := None\<rparr>
                   in if latestResult \<noteq> [] \<and> latestResult \<noteq> ZERO_CIPHERTEXT
                      then s0\<lparr>statusMessage := Some msg_result_ready\<rparr> else s0)
                else s)
      in s1\<lparr>encryptedResult := Some latestResult\<rparr>)"

text \<open>The statements that follow the \<open>await\<close>, inside the \<open>try\<close>.\<close>

definition applyPlayerData :: "bool \<Rightarrow> int \<Rightarrow> jsstring \<Rightarrow> state \<Rightarrow> state" where
  "applyPlayerData joined activeRound latestResult s =
     (let s1 = s\<lparr>hasJoined := joined, round' := Number_of_bigint activeRound\<rparr>;
          s2 = updateEncryptedResult latestResult s1
      in if \<not> joined then s2\<lparr>feedbackCode := None, lastDecryptedCipher := None\<rparr> else s2)"

definition canRead :: "env \<Rightarrow> bool" where
  "canRead e \<longleftrightarrow> publicClient e \<and> truthy (address e) \<and> isContractConfigured e"

definition refreshPlayerData :: "env \<Rightarrow> reads \<Rightarrow> state \<Rightarrow> state \<times> call list" where
  "refreshPlayerData e rd s =
     (if \<not> canRead e then (clearPlayerData s, [])
      else
        (case promiseAll rd of
           Inr (joined, activeRound, latestResult) \<Rightarrow>
             (applyPlayerData joined activeRound latestResult s,
              [ReadContract HasJoined, ReadContract GetRound, ReadContract GetLatestResult])
         | Inl err \<Rightarrow>
             (s, [ReadContract HasJoined, ReadContract GetRound, ReadContract GetLatestResult,
                  ConsoleError (ascii ''Failed to refresh player data'')])))"

section \<open>\<open>handleJoin\<close>\<close>

text \<open>
  The first part checks the address and the configuration, sets the busy flag and is
  suspended at \<open>await signer\<close>. It does not read \<open>isJoining\<close>.
\<close>

definition handleJoin_begin :: "env \<Rightarrow> state \<Rightarrow> unit phase \<times> state" where
  "handleJoin_begin e s =
     (if \<not> truthy (address e) then (Returned, s\<lparr>statusMessage := Some msg_join_no_wallet\<rparr>)
      else if \<not> isContractConfigured e then
        (Returned, s\<lparr>statusMessage := Some msg_not_configured\<rparr>)
      else (Awaiting (), s\<lparr>isJoining := True, statusMessage := Some msg_join_start\<rparr>))"

text \<open>The \<open>catch\<close> and \<open>finally\<close> blocks of \<open>handleJoin\<close>.\<close>

definition joinFailed :: "thrown \<Rightarrow> call list \<Rightarrow> state \<Rightarrow> state \<times> call list" where
  "joinFailed err cs s =
     (s\<lparr>statusMessage := Some (errorMessage err msg_join_failed), isJoining := False\<rparr>,
      cs @ [ConsoleError (ascii ''Join transaction failed'')])"

text \<open>
  The second part, given what the awaited calls answer: the signer the promise resolves
  to (\<open>Inr False\<close>: none), \<open>contract.joinGame()\<close>, \<open>tx.wait()\<close> and the three reads
  of the refresh.
\<close>

definition handleJoin_resume ::
  "env \<Rightarrow> bool outcome \<Rightarrow> unit outcome \<Rightarrow> unit outcome \<Rightarrow> reads \<Rightarrow> state \<Rightarrow> state \<times> call list"
where
  "handleJoin_resume e resolvedSigner sent waited rd s =
     (case resolvedSigner of
        Inl err \<Rightarrow> joinFailed err [] s
      | Inr False \<Rightarrow> joinFailed (Error msg_signer_unavailable) [] s
      | Inr True \<Rightarrow>
          (case sent of
             Inl err \<Rightarrow> joinFailed err [JoinGame] s
           | Inr _ \<Rightarrow>
               (case waited of
                  Inl err \<Rightarrow> joinFailed err [JoinGame, TxWait] s
                | Inr _ \<Rightarrow>
                    (let s1 = s\<lparr>statusMessage := Some msg_join_done, feedbackCode := None,
                                lastDecryptedCipher := None\<rparr>;
                         (s2, cs) = refreshPlayerData e rd s1
                     in (s2\<lparr>isJoining := False\<rparr>, [JoinGame, TxWait] @ cs)))))"

section \<open>\<open>handleGuess\<close>\<close>

text \<open>The test on the input field's text: \<open>Number(guessValue.trim())\<close> and its range.\<close>

definition guessNumber :: "jsstring \<Rightarrow> jsnum" where
  "guessNumber v = Number_of_string (trim v)"

definition invalidGuess :: "jsnum \<Rightarrow> bool" where
  "invalidGuess n \<longleftrightarrow> \<not> isInteger n \<or> js_less n (Finite 1 0) \<or> js_less (Finite 10 0) n"

definition handleGuess_begin :: "env \<Rightarrow> state \<Rightarrow> jsnum phase \<times> state" where
  "handleGuess_begin e s =
     (if \<not> truthy (address e) then (Returned, s\<lparr>statusMessage := Some msg_guess_no_wallet\<rparr>)
      else if \<not> isContractConfigured e then
        (Returned, s\<lparr>statusMessage := Some msg_not_configured\<rparr>)
      else if \<not> hasJoined s then (Returned, s\<lparr>statusMessage := Some msg_not_joined\<rparr>)
      else if invalidGuess (guessNumber (guessValue s)) then
        (Returned, s\<lparr>statusMessage := Some msg_invalid_input\<rparr>)
      else if \<not> fheInstance e then (Returned, s\<lparr>statusMessage := Some msg_engine_offline\<rparr>)
      else (Awaiting (guessNumber (guessValue s)),
            s\<lparr>isGuessing := True, statusMessage := Some msg_guess_start\<rparr>))"

definition guessFailed :: "thrown \<Rightarrow> call list \<Rightarrow> state \<Rightarrow> state \<times> call list" where
  "guessFailed err cs s =
     (s\<lparr>statusMessage := Some (errorMessage err msg_guess_failed), isGuessing := False\<rparr>,
      cs @ [ConsoleError (ascii ''Guess transaction failed'')])"

text \<open>
  The second part. The encrypted input answers with its handles and its proof;
  \<open>handles[0]\<close> of an empty array is \<open>undefined\<close>.
\<close>

definition handleGuess_resume ::
  "env \<Rightarrow> jsnum \<Rightarrow> bool outcome \<Rightarrow> (bytes list \<times> bytes) outcome \<Rightarrow> unit outcome \<Rightarrow>
     unit outcome \<Rightarrow> reads \<Rightarrow> state \<Rightarrow> state \<times> call list"
where
  "handleGuess_resume e n resolvedSigner encryptedInput sent waited rd s =
     (case resolvedSigner of
        Inl err \<Rightarrow> guessFailed err [] s
      | Inr False \<Rightarrow> guessFailed (Error msg_signer_unavailable) [] s
      | Inr True \<Rightarrow>
          (case encryptedInput of
             Inl err \<Rightarrow> guessFailed err [EncryptInput n] s
           | Inr (handles, inputProof) \<Rightarrow>
               (let submit = SubmitGuess (case handles of [] \<Rightarrow> None | h # _ \<Rightarrow> Some h) inputProof
                in case sent of
                     Inl err \<Rightarrow> guessFailed err [EncryptInput n, submit] s
                   | Inr _ \<Rightarrow>
                       (case waited of
                          Inl err \<Rightarrow> guessFailed err [EncryptInput n, submit, TxWait] s
                        | Inr _ \<Rightarrow>
                            (let s1 = s\<lparr>statusMessage := Some msg_guess_done, guessValue := []\<rparr>;
                                 (s2, cs) = refreshPlayerData e rd s1
                             in (s2\<lparr>isGuessing := False\<rparr>,
                                 [EncryptInput n, submit, TxWait] @ cs))))))"

section \<open>\<open>decryptCiphertext\<close> and \<open>manualDecrypt\<close>\<close>

text \<open>The \<open>catch\<close> and \<open>finally\<close> blocks of \<open>decryptCiphertext\<close>.\<close>

definition decryptFailed :: "thrown \<Rightarrow> call list \<Rightarrow> state \<Rightarrow> state \<times> call list" where
  "decryptFailed err cs s =
     (s\<lparr>statusMessage := Some (errorMessage err msg_decrypt_failed), isDecrypting := False\<rparr>,
      cs @ [ConsoleError (ascii ''Failed to decrypt result'')])"

text \<open>
  The first part: the two guards, the busy flag, and the engine's synchronous calls
  \<open>generateKeypair\<close> and \<open>createEIP712\<close>, which may throw, up to \<open>await signer\<close>.
\<close>

definition decryptCiphertext_begin ::
  "env \<Rightarrow> unit outcome \<Rightarrow> unit outcome \<Rightarrow> jsstring \<Rightarrow> state \<Rightarrow> jsstring phase \<times> state \<times> call list"
where
  "decryptCiphertext_begin e keypair eip712 cipher s =
     (if \<not> fheInstance e \<or> \<not> truthy (address e) \<or> \<not> isContractConfigured e then (Returned, s, [])
      else if isDecrypting s then (Returned, s, [])
      else
        (let s1 = s\<lparr>isDecrypting := True, statusMessage := Some msg_decrypt_start\<rparr>
         in case keypair of
              Inl err \<Rightarrow> (Returned, decryptFailed err [GenerateKeypair] s1)
            | Inr _ \<Rightarrow>
                (case eip712 of
                   Inl err \<Rightarrow> (Returned, decryptFailed err [GenerateKeypair, CreateEIP712] s1)
                 | Inr _ \<Rightarrow> (Awaiting cipher, s1, [GenerateKeypair, CreateEIP712]))))"

text \<open>\<open>signature.replace('0x', '')\<close>: the first occurrence of \<open>0x\<close> is removed.\<close>

fun replace0x :: "jsstring \<Rightarrow> jsstring" where
  "replace0x (a # b # r) = (if a = 0x30 \<and> b = 0x78 then r else a # replace0x (b # r))"
| "replace0x r = r"

text \<open>
  The answer of \<open>userDecrypt\<close> is an object from handles to plaintext strings, or
  \<open>null\<close>; the list holds its own properties in the order \<open>Object.values\<close> gives them.
  \<open>extractRawValue\<close> is \<open>(response && response[cipher]) || values[0]\<close>: the value under
  the key when it is truthy, the first value otherwise, \<open>None\<close> for \<open>undefined\<close>.
\<close>

type_synonym response = "(jsstring \<times> jsstring) list option"

definition extractRawValue :: "jsstring \<Rightarrow> response \<Rightarrow> jsstring option" where
  "extractRawValue cipher response =
     (let values = (case response of None \<Rightarrow> [] | Some kvs \<Rightarrow> map snd kvs);
          keyed = (case response of None \<Rightarrow> None | Some kvs \<Rightarrow> map_of kvs cipher)
      in if truthy keyed then keyed
         else (case values of [] \<Rightarrow> None | v # _ \<Rightarrow> Some v))"

text \<open>The statements after \<open>userDecrypt\<close> has answered, inside the \<open>try\<close>.\<close>

definition storeDecrypted :: "jsstring \<Rightarrow> response \<Rightarrow> state \<Rightarrow> thrown + state" where
  "storeDecrypted cipher response s =
     (case extractRawValue cipher response of
        None \<Rightarrow> Inl (Error msg_no_value)
      | Some rawValue \<Rightarrow>
          if rawValue = [] then Inl (Error msg_no_value)
          else
            (let numeric = Number_of_string rawValue
             in if \<not> isInteger numeric then Inl (Error msg_bad_format)
                else Inr (s\<lparr>feedbackCode := Some numeric, lastDecryptedCipher := Some cipher,
                            statusMessage := Some msg_decoded\<rparr>)))"

definition decryptCiphertext_resume ::
  "jsstring \<Rightarrow> bool outcome \<Rightarrow> jsstring outcome \<Rightarrow> response outcome \<Rightarrow> state \<Rightarrow> state \<times> call list"
where
  "decryptCiphertext_resume cipher resolvedSigner signature answer s =
     (case resolvedSigner of
        Inl err \<Rightarrow> decryptFailed err [] s
      | Inr False \<Rightarrow> decryptFailed (Error msg_signer_unavailable) [] s
      | Inr True \<Rightarrow>
          (case signature of
             Inl err \<Rightarrow> decryptFailed err [SignTypedData] s
           | Inr sig \<Rightarrow>
               (let request = UserDecrypt cipher (replace0x sig)
                in case answer of
                     Inl err \<Rightarrow> decryptFailed err [SignTypedData, request] s
                   | Inr response \<Rightarrow>
                       (case storeDecrypted cipher response s of
                          Inl err \<Rightarrow> decryptFailed err [SignTypedData, request] s
                        | Inr s1 \<Rightarrow> (s1\<lparr>isDecrypting := False\<rparr>, [SignTypedData, request])))))"

definition manualDecrypt_begin ::
  "env \<Rightarrow> unit outcome \<Rightarrow> unit outcome \<Rightarrow> state \<Rightarrow> jsstring phase \<times> state \<times> call list"
where
  "manualDecrypt_begin e keypair eip712 s =
     (case encryptedResult s of
        None \<Rightarrow> (Returned, s\<lparr>statusMessage := Some msg_no_data\<rparr>, [])
      | Some cipher \<Rightarrow>
          if cipher = [] \<or> cipher = ZERO_CIPHERTEXT then
            (Returned, s\<lparr>statusMessage := Some msg_no_data\<rparr>, [])
          else if \<not> isContractConfigured e then
            (Returned, s\<lparr>statusMessage := Some msg_not_configured\<rparr>, [])
          else decryptCiphertext_begin e keypair eip712 cipher s)"

text \<open>A handler run from its start to its end, with nothing else in between.\<close>

definition handleJoin ::
  "env \<Rightarrow> bool outcome \<Rightarrow> unit outcome \<Rightarrow> unit outcome \<Rightarrow> reads \<Rightarrow> state \<Rightarrow> state \<times> call list"
where
  "handleJoin e resolvedSigner sent waited rd s =
     (case handleJoin_begin e s of
        (Returned, s') \<Rightarrow> (s', [])
      | (Awaiting _, s') \<Rightarrow> handleJoin_resume e resolvedSigner sent waited rd s')"

definition handleGuess ::
  "env \<Rightarrow> bool outcome \<Rightarrow> (bytes list \<times> bytes) outcome \<Rightarrow> unit outcome \<Rightarrow> unit outcome \<Rightarrow>
     reads \<Rightarrow> state \<Rightarrow> state \<times> call list"
where
  "handleGuess e resolvedSigner encryptedInput sent waited rd s =
     (case handleGuess_begin e s of
        (Returned, s') \<Rightarrow> (s', [])
      | (Awaiting n, s') \<Rightarrow> handleGuess_resume e n resolvedSigner encryptedInput sent waited rd s')"

section \<open>The buttons\<close>

text \<open>
  The \<open>disabled\<close> attributes of the three buttons. A disabled button dispatches no
  click, so its handler does not run.
\<close>

definition joinDisabled :: "env \<Rightarrow> state \<Rightarrow> bool" where
  "joinDisabled e s \<longleftrightarrow>
     isJoining s \<or> \<not> truthy (address e) \<or> isZamaLoading e \<or> \<not> isContractConfigured e"

definition guessDisabled :: "env \<Rightarrow> state \<Rightarrow> bool" where
  "guessDisabled e s \<longleftrightarrow>
     isGuessing s \<or> \<not> truthy (address e) \<or> \<not> hasJoined s \<or> isZamaLoading e
     \<or> \<not> isContractConfigured e"

definition decryptDisabled :: "env \<Rightarrow> state \<Rightarrow> bool" where
  "decryptDisabled e s \<longleftrightarrow>
     isDecrypting s \<or> \<not> truthy (encryptedResult s) \<or> encryptedResult s = Some ZERO_CIPHERTEXT
     \<or> \<not> truthy (address e) \<or> \<not> isContractConfigured e"

definition clickJoin :: "env \<Rightarrow> state \<Rightarrow> unit phase \<times> state" where
  "clickJoin e s = (if joinDisabled e s then (Returned, s) else handleJoin_begin e s)"

definition clickGuess :: "env \<Rightarrow> state \<Rightarrow> jsnum phase \<times> state" where
  "clickGuess e s = (if guessDisabled e s then (Returned, s) else handleGuess_begin e s)"

section \<open>Runs and sample data\<close>

text \<open>A sequence of refreshes, each with its own three reads, one after the other.\<close>

fun refreshAll :: "env \<Rightarrow> reads list \<Rightarrow> state \<Rightarrow> state" where
  "refreshAll e [] s = s"
| "refreshAll e (rd # rds) s = refreshAll e rds (fst (refreshPlayerData e rd s))"

text \<open>
  The reads of a refresh that leaves the handle \<open>h\<close> in place: one of them fails, or they
  return \<open>joined = true\<close> and the handle \<open>h\<close>.
\<close>

definition observesHandle :: "jsstring \<Rightarrow> reads \<Rightarrow> bool" where
  "observesHandle h rd =
     (case promiseAll rd of Inl _ \<Rightarrow> True | Inr (joined, _, c) \<Rightarrow> joined \<and> c = h)"

text \<open>
  A connected wallet with a configured contract and a running cipher engine, two
  handles, and a state in which the result under the first handle has been decrypted to
  the code 2.
\<close>

definition readyEnv :: env where
  "readyEnv =
     \<lparr>address = Some (ascii ''0x52908400098527886E0F7030069857D2E4169EE7''), publicClient = True,
      fheInstance = True, isZamaLoading = False,
      contractAddress = Some (ascii ''0xde709f2102306220921060314715629080e2fb77'')\<rparr>"

definition handleA :: jsstring where
  "handleA = ascii ''0xabcd000000000000000000000000000000000000000000000000000000000001''"

definition handleB :: jsstring where
  "handleB = ascii ''0xabcd000000000000000000000000000000000000000000000000000000000002''"

definition revealedState :: state where
  "revealedState =
     initialState\<lparr>hasJoined := True, round' := Finite 1 0, encryptedResult := Some handleA,
       lastDecryptedCipher := Some handleA, feedbackCode := Some (Finite 2 0)\<rparr>"

text \<open>A joined session with no result yet.\<close>

definition joinedState :: state where
  "joinedState =
     initialState\<lparr>hasJoined := True, round' := Finite 1 0,
       encryptedResult := Some ZERO_CIPHERTEXT\<rparr>"

text \<open>A joined session whose result under the first handle waits to be decrypted.\<close>

definition pendingState :: state where
  "pendingState = joinedState\<lparr>encryptedResult := Some handleA\<rparr>"

text \<open>The state in which the first part of \<open>handleJoin\<close> leaves a fresh session.\<close>

definition joinPendingState :: state where
  "joinPendingState = snd (handleJoin_begin readyEnv initialState)"

text \<open>The requests to the decryption authority among the calls of a run.\<close>

definition isUserDecrypt :: "call \<Rightarrow> bool" where
  "isUserDecrypt c = (case c of UserDecrypt _ _ \<Rightarrow> True | _ \<Rightarrow> False)"

section \<open>Evaluation\<close>

lemmas number_eval =
  Number_of_string_def Number_of_bigint_def trim_def ascii_def isWhiteSpace_def
  nonDecimalLiteral_def unsignedDecimalLiteral_def exponentPart_def isDigit_def digitValue_def
  digitsValue_def toDouble_def floorLog2_def bitLength.simps roundHalfEven_def dyadic.simps
  Let_def

text \<open>The conversion on literals of each form of the grammar, and on strings outside it.\<close>

lemma Number_of_string_grammar:
  "Number_of_string (ascii ''5.'') = Finite 5 0"
  "Number_of_string (ascii ''.5'') = Finite 1 1"
  "Number_of_string (ascii ''-2.5e1'') = Finite (- 25) 0"
  "Number_of_string (ascii ''1E+1'') = Finite 10 0"
  "Number_of_string (ascii ''0.1'') = Finite 3602879701896397 55"
  "Number_of_string (ascii ''10.000000000000000001'') = Finite 10 0"
  "Number_of_string (ascii ''0b101'') = Finite 5 0"
  "Number_of_string (ascii ''0o17'') = Finite 15 0"
  "Number_of_string (ascii ''0XfF'') = Finite 255 0"
  "Number_of_string (ascii ''-Infinity'') = NegInf"
  "Number_of_string (ascii ''.'') = NaN"
  "Number_of_string (ascii ''0x'') = NaN"
  "Number_of_string (ascii ''-0x7'') = NaN"
  "Number_of_string (ascii ''1e'') = NaN"
  "Number_of_string (ascii ''1_0'') = NaN"
  "Number_of_string (ascii ''7n'') = NaN"
  "Number_of_string (ascii ''1 0'') = NaN"
  "Number_of_string [0xFEFF, 0x37, 0x2003, 0x000A] = Finite 7 0"
  "Number_of_bigint 9007199254740993 = Finite 9007199254740992 0"
  by (simp_all add: number_eval)

lemma canRead_readyEnv: "canRead readyEnv"
  by (simp add: canRead_def readyEnv_def truthy_def isContractConfigured_def ascii_def)

lemma readyEnv_fields:
  "truthy (address readyEnv)" "isContractConfigured readyEnv" "fheInstance readyEnv"
  "\<not> isZamaLoading readyEnv"
  by (simp_all add: readyEnv_def truthy_def isContractConfigured_def ascii_def)

lemma handles_distinct:
  "handleA \<noteq> handleB" "handleA \<noteq> ZERO_CIPHERTEXT" "handleB \<noteq> ZERO_CIPHERTEXT"
  "handleA \<noteq> []" "handleB \<noteq> []" "ZERO_CIPHERTEXT \<noteq> []"
  by (simp_all add: handleA_def handleB_def ZERO_CIPHERTEXT_def ascii_def)

lemma Number_of_bigint_small:
  "Number_of_bigint 0 = Finite 0 0" "Number_of_bigint 1 = Finite 1 0"
  "Number_of_bigint 3 = Finite 3 0"
  by (simp_all add: number_eval)

section \<open>Properties of the refresh\<close>

lemma refresh_resolved:
  "canRead e \<Longrightarrow>
   refreshPlayerData e (Inr joined, Inr activeRound, Inr latestResult) s =
     (applyPlayerData joined activeRound latestResult s,
      [ReadContract HasJoined, ReadContract GetRound, ReadContract GetLatestResult])"
  by (simp add: refreshPlayerData_def promiseAll_def)

lemma promiseAll_rejects:
  "isl a \<or> isl b \<or> isl c \<Longrightarrow> \<exists>err. promiseAll (a, b, c) = Inl err"
  by (cases a; cases b; cases c) (simp_all add: promiseAll_def)

lemma refresh_rejected:
  "canRead e \<Longrightarrow> isl a \<or> isl b \<or> isl c \<Longrightarrow>
   refreshPlayerData e (a, b, c) s =
     (s, [ReadContract HasJoined, ReadContract GetRound, ReadContract GetLatestResult,
          ConsoleError (ascii ''Failed to refresh player data'')])"
  using promiseAll_rejects [of a b c] by (auto simp add: refreshPlayerData_def)

lemma applyPlayerData_session:
  "hasJoined (applyPlayerData j r c s) = j"
  "round' (applyPlayerData j r c s) = Number_of_bigint r"
  "encryptedResult (applyPlayerData j r c s) = Some c"
  by (simp_all add: applyPlayerData_def updateEncryptedResult_def Let_def)

lemma applyPlayerData_flags:
  "isJoining (applyPlayerData j r c s) = isJoining s"
  "isGuessing (applyPlayerData j r c s) = isGuessing s"
  "isDecrypting (applyPlayerData j r c s) = isDecrypting s"
  "guessValue (applyPlayerData j r c s) = guessValue s"
  by (simp_all add: applyPlayerData_def updateEncryptedResult_def Let_def)

lemma applyPlayerData_feedback:
  "feedbackCode (applyPlayerData j r c s) =
     (if j \<and> encryptedResult s = Some c then feedbackCode s else None)"
  "lastDecryptedCipher (applyPlayerData j r c s) =
     (if j \<and> encryptedResult s = Some c then lastDecryptedCipher s else None)"
  by (simp_all add: applyPlayerData_def updateEncryptedResult_def Let_def)

lemma applyPlayerData_status:
  "statusMessage (applyPlayerData j r c s) =
     (if encryptedResult s \<noteq> Some c \<and> c \<noteq> [] \<and> c \<noteq> ZERO_CIPHERTEXT
      then Some msg_result_ready else statusMessage s)"
  by (simp add: applyPlayerData_def updateEncryptedResult_def Let_def)

lemma refresh_flags:
  "isJoining (fst (refreshPlayerData e rd s)) = isJoining s"
  "isGuessing (fst (refreshPlayerData e rd s)) = isGuessing s"
  "isDecrypting (fst (refreshPlayerData e rd s)) = isDecrypting s"
  by (simp_all add: refreshPlayerData_def clearPlayerData_def applyPlayerData_flags
      split: sum.split prod.split)

text \<open>
  Claim C3. A refresh that reads is atomic. When one of the three reads fails, the state
  is returned as it was, in every field, and the failure is logged with \<open>console.error\<close>
  after the three reads. When all three succeed, \<open>hasJoined\<close>, \<open>round\<close> and
  \<open>encryptedResult\<close> are the three values read. Each read fails or succeeds, so there
  is no third case and no partial update.
\<close>

theorem refresh_atomic:
  assumes "canRead e"
  shows "(isl a \<or> isl b \<or> isl c \<longrightarrow>
            refreshPlayerData e (a, b, c) s =
              (s, [ReadContract HasJoined, ReadContract GetRound, ReadContract GetLatestResult,
                   ConsoleError (ascii ''Failed to refresh player data'')]))
       \<and> (\<forall>joined activeRound latestResult.
            a = Inr joined \<and> b = Inr activeRound \<and> c = Inr latestResult \<longrightarrow>
            (\<exists>s'. refreshPlayerData e (a, b, c) s =
                    (s', [ReadContract HasJoined, ReadContract GetRound,
                          ReadContract GetLatestResult])
                 \<and> hasJoined s' = joined
                 \<and> round' s' = Number_of_bigint activeRound
                 \<and> encryptedResult s' = Some latestResult))"
  using assms by (auto simp add: refresh_rejected refresh_resolved applyPlayerData_session)

theorem refresh_atomic_witness:
  "canRead readyEnv
   \<and> refreshPlayerData readyEnv (Inr False, Inl NonError, Inr handleB) revealedState =
       (revealedState,
        [ReadContract HasJoined, ReadContract GetRound, ReadContract GetLatestResult,
         ConsoleError (ascii ''Failed to refresh player data'')])
   \<and> (\<exists>s'. refreshPlayerData readyEnv (Inr True, Inr 3, Inr handleB) revealedState =
             (s', [ReadContract HasJoined, ReadContract GetRound, ReadContract GetLatestResult])
          \<and> hasJoined s' \<and> round' s' = Finite 3 0 \<and> encryptedResult s' = Some handleB)"
  using refresh_atomic [OF canRead_readyEnv, of "Inr False" "Inl NonError" "Inr handleB" revealedState]
    refresh_atomic [OF canRead_readyEnv, of "Inr True" "Inr 3" "Inr handleB" revealedState]
  by (auto simp add: canRead_readyEnv Number_of_bigint_small)

text \<open>
  Claim C4. In a refresh whose reads succeed, the new handle is compared with the stored
  one as a string. When they differ, the feedback code and the last decrypted cipher are
  cleared. The status becomes the "result ready" message exactly when the handles differ
  and the new one is truthy (for a string: not empty) and not the zero handle; otherwise
  the status is left as it was. So a refresh that reads the zero handle leaves the status
  alone. No refresh gives the feedback code a new value: it is \<open>null\<close> or what it was.
\<close>

theorem refresh_handle_change:
  assumes "canRead e"
    and "refreshPlayerData e (Inr joined, Inr activeRound, Inr latestResult) s = (s', cs)"
  shows "(encryptedResult s \<noteq> Some latestResult \<longrightarrow>
            feedbackCode s' = None \<and> lastDecryptedCipher s' = None)
       \<and> statusMessage s' =
           (if encryptedResult s \<noteq> Some latestResult \<and> latestResult \<noteq> []
               \<and> latestResult \<noteq> ZERO_CIPHERTEXT
            then Some msg_result_ready else statusMessage s)
       \<and> (latestResult = ZERO_CIPHERTEXT \<longrightarrow> statusMessage s' = statusMessage s)
       \<and> (feedbackCode s' = None \<or> feedbackCode s' = feedbackCode s)
       \<and> encryptedResult s' = Some latestResult"
proof -
  have s': "s' = applyPlayerData joined activeRound latestResult s"
    using assms by (simp add: refresh_resolved)
  show ?thesis
    unfolding s'
    by (simp add: applyPlayerData_feedback applyPlayerData_status applyPlayerData_session)
qed

theorem refresh_handle_change_witness:
  "canRead readyEnv
   \<and> feedbackCode (fst (refreshPlayerData readyEnv (Inr True, Inr 1, Inr handleB) revealedState))
       = None
   \<and> lastDecryptedCipher
       (fst (refreshPlayerData readyEnv (Inr True, Inr 1, Inr handleB) revealedState)) = None
   \<and> statusMessage (fst (refreshPlayerData readyEnv (Inr True, Inr 1, Inr handleB) revealedState))
       = Some msg_result_ready
   \<and> statusMessage
       (fst (refreshPlayerData readyEnv (Inr True, Inr 1, Inr ZERO_CIPHERTEXT) revealedState))
       = None
   \<and> feedbackCode
       (fst (refreshPlayerData readyEnv (Inr True, Inr 1, Inr ZERO_CIPHERTEXT) revealedState))
       = None"
  using
    refresh_handle_change [where e = readyEnv and joined = True and activeRound = 1
      and latestResult = handleB and s = revealedState,
      OF canRead_readyEnv prod.collapse [symmetric]]
    refresh_handle_change [where e = readyEnv and joined = True and activeRound = 1
      and latestResult = ZERO_CIPHERTEXT and s = revealedState,
      OF canRead_readyEnv prod.collapse [symmetric]]
  by (simp add: canRead_readyEnv revealedState_def initialState_def handles_distinct)

text \<open>One refresh that reads the stored handle again, or whose reads fail.\<close>

lemma refresh_observed:
  assumes "canRead e" and "observesHandle h rd" and "encryptedResult s = Some h"
  shows "feedbackCode (fst (refreshPlayerData e rd s)) = feedbackCode s
       \<and> lastDecryptedCipher (fst (refreshPlayerData e rd s)) = lastDecryptedCipher s
       \<and> encryptedResult (fst (refreshPlayerData e rd s)) = Some h"
  using assms
  by (auto simp add: refreshPlayerData_def observesHandle_def applyPlayerData_feedback
      applyPlayerData_session split: sum.splits)

text \<open>
  Claim C7. While the account is joined, a refresh that reads the stored handle again
  (or whose reads fail) keeps the feedback code and the last decrypted cipher; by
  induction on the sequence they survive any number of such refreshes, from every state
  that stores the handle. The first refresh that then reads another handle clears the
  feedback code.
\<close>

theorem feedback_survives_same_handle:
  assumes "canRead e" and "encryptedResult s = Some h" and "list_all (observesHandle h) rds"
  shows "feedbackCode (refreshAll e rds s) = feedbackCode s
       \<and> lastDecryptedCipher (refreshAll e rds s) = lastDecryptedCipher s
       \<and> encryptedResult (refreshAll e rds s) = Some h
       \<and> (\<forall>joined activeRound h'. h' \<noteq> h \<longrightarrow>
            feedbackCode (fst (refreshPlayerData e (Inr joined, Inr activeRound, Inr h')
              (refreshAll e rds s))) = None)"
  using assms
proof (induction rds arbitrary: s)
  case Nil
  then show ?case
    by (simp add: refresh_resolved applyPlayerData_feedback)
next
  case (Cons rd rds)
  from Cons.prems have rd: "observesHandle h rd" and rds: "list_all (observesHandle h) rds"
    by simp_all
  note step = refresh_observed [OF Cons.prems(1) rd Cons.prems(2)]
  from step have "encryptedResult (fst (refreshPlayerData e rd s)) = Some h"
    by simp
  from Cons.IH [OF Cons.prems(1) this rds] step show ?case
    by simp
qed

theorem feedback_survives_same_handle_witness:
  "canRead readyEnv \<and> encryptedResult revealedState = Some handleA
   \<and> list_all (observesHandle handleA)
       [(Inr True, Inr 1, Inr handleA), (Inr True, Inl NonError, Inr handleA),
        (Inr True, Inr 1, Inr handleA)]
   \<and> feedbackCode
       (refreshAll readyEnv
          [(Inr True, Inr 1, Inr handleA), (Inr True, Inl NonError, Inr handleA),
           (Inr True, Inr 1, Inr handleA)] revealedState) = Some (Finite 2 0)
   \<and> lastDecryptedCipher
       (refreshAll readyEnv
          [(Inr True, Inr 1, Inr handleA), (Inr True, Inl NonError, Inr handleA),
           (Inr True, Inr 1, Inr handleA)] revealedState) = Some handleA
   \<and> feedbackCode
       (fst (refreshPlayerData readyEnv (Inr True, Inr 1, Inr handleB)
          (refreshAll readyEnv
             [(Inr True, Inr 1, Inr handleA), (Inr True, Inl NonError, Inr handleA),
              (Inr True, Inr 1, Inr handleA)] revealedState))) = None"
proof -
  have stored: "encryptedResult revealedState = Some handleA"
    by (simp add: revealedState_def)
  have same: "list_all (observesHandle handleA)
       [(Inr True, Inr 1, Inr handleA), (Inr True, Inl NonError, Inr handleA),
        (Inr True, Inr 1, Inr handleA)]"
    by (simp add: observesHandle_def promiseAll_def)
  have other: "handleB \<noteq> handleA"
    using handles_distinct(1) by simp
  from feedback_survives_same_handle [OF canRead_readyEnv stored same] other
  show ?thesis
    by (simp add: canRead_readyEnv observesHandle_def promiseAll_def revealedState_def)
qed

text \<open>
  Claim C8. After a refresh whose reads succeed and report that the account has not
  joined, the feedback code and the last decrypted cipher are \<open>null\<close>, whatever handle
  was read.
\<close>

theorem not_joined_clears_feedback:
  assumes "canRead e"
    and "refreshPlayerData e (Inr False, Inr activeRound, Inr latestResult) s = (s', cs)"
  shows "feedbackCode s' = None \<and> lastDecryptedCipher s' = None"
proof -
  have "s' = applyPlayerData False activeRound latestResult s"
    using assms by (simp add: refresh_resolved)
  then show ?thesis
    by (simp add: applyPlayerData_feedback)
qed

theorem not_joined_clears_feedback_witness:
  "canRead readyEnv
   \<and> feedbackCode revealedState = Some (Finite 2 0)
   \<and> feedbackCode
       (fst (refreshPlayerData readyEnv (Inr False, Inr 1, Inr handleA) revealedState)) = None
   \<and> lastDecryptedCipher
       (fst (refreshPlayerData readyEnv (Inr False, Inr 1, Inr handleA) revealedState)) = None"
  using not_joined_clears_feedback [where e = readyEnv and activeRound = 1
      and latestResult = handleA and s = revealedState,
      OF canRead_readyEnv prod.collapse [symmetric]]
  by (simp add: canRead_readyEnv revealedState_def)

section \<open>Properties of the conversion to a Number\<close>

text \<open>
  What \<open>Number\<close> returns for a string is in lowest terms, so it is an integer exactly
  when it is \<open>Finite i 0\<close> for an integer \<open>i\<close>.
\<close>

lemma dyadic_normal: "dyadic m k = (m', k') \<Longrightarrow> k' = 0 \<or> odd m'"
proof (induction m k rule: dyadic.induct)
  case (1 m k)
  show ?case
  proof (cases "k = 0 \<or> odd m")
    case True
    with "1.prems" show ?thesis
      by (auto simp add: dyadic.simps [of m k])
  next
    case False
    with "1.prems" have "dyadic (m div 2) (k - 1) = (m', k')"
      by (simp add: dyadic.simps [of m k])
    with "1.IH" False show ?thesis
      by simp
  qed
qed

lemma toDouble_normal: "toDouble neg n d = Finite m k \<Longrightarrow> k = 0 \<or> odd m"
  by (auto simp add: toDouble_def Let_def split: if_splits prod.splits dest: dyadic_normal)

lemma Number_of_string_normal: "Number_of_string v = Finite m k \<Longrightarrow> k = 0 \<or> odd m"
  by (auto simp add: Number_of_string_def Let_def split: if_splits option.splits prod.splits
      dest: toDouble_normal)

lemma integer_normal:
  assumes "k = 0 \<or> odd m"
  shows "isInteger (Finite m k) \<longleftrightarrow> k = 0"
proof (cases "k = 0")
  case True
  then show ?thesis by (simp add: isInteger_def)
next
  case False
  with assms have "odd m" by simp
  moreover from False have "(2::int) dvd 2 ^ k" by simp
  ultimately have "\<not> (2::int) ^ k dvd m"
    using dvd_trans by blast
  with False show ?thesis by (simp add: isInteger_def)
qed

lemma valid_guess_iff:
  "\<not> invalidGuess (guessNumber v) \<longleftrightarrow> (\<exists>i. 1 \<le> i \<and> i \<le> 10 \<and> guessNumber v = Finite i 0)"
proof (cases "guessNumber v")
  case (Finite m k)
  then have "k = 0 \<or> odd m"
    by (auto simp add: guessNumber_def dest: Number_of_string_normal)
  from integer_normal [OF this] Finite show ?thesis
    by (auto simp add: invalidGuess_def js_less_def)
qed (simp_all add: invalidGuess_def isInteger_def)

section \<open>Properties of \<open>handleGuess\<close>\<close>

lemma guessNumber_examples:
  "guessNumber (ascii ''0'') = Finite 0 0"
  "guessNumber (ascii ''11'') = Finite 11 0"
  "guessNumber (ascii ''3.5'') = Finite 7 1"
  "guessNumber (ascii ''abc'') = NaN"
  "guessNumber (ascii ''7'') = Finite 7 0"
  "guessNumber (ascii ''7.0'') = Finite 7 0"
  "guessNumber (ascii '' 7 '') = Finite 7 0"
  "guessNumber (ascii ''0x7'') = Finite 7 0"
  "guessNumber [] = Finite 0 0"
  by (simp_all add: guessNumber_def number_eval)

lemma invalidGuess_examples:
  "invalidGuess (guessNumber (ascii ''0''))" "invalidGuess (guessNumber (ascii ''11''))"
  "invalidGuess (guessNumber (ascii ''3.5''))" "invalidGuess (guessNumber (ascii ''abc''))"
  "invalidGuess (guessNumber [])"
  "\<not> invalidGuess (guessNumber (ascii ''7''))" "\<not> invalidGuess (guessNumber (ascii ''7.0''))"
  "\<not> invalidGuess (guessNumber (ascii '' 7 ''))" "\<not> invalidGuess (guessNumber (ascii ''0x7''))"
  by (simp_all add: guessNumber_examples invalidGuess_def isInteger_def js_less_def)

lemma handleGuess_begin_Returned:
  "fst (handleGuess_begin e s) = Returned \<longleftrightarrow>
     \<not> (truthy (address e) \<and> isContractConfigured e \<and> hasJoined s
        \<and> \<not> invalidGuess (guessNumber (guessValue s)) \<and> fheInstance e)"
  by (simp add: handleGuess_begin_def)

lemma handleGuess_no_calls:
  "fst (handleGuess_begin e s) = Returned \<Longrightarrow>
   handleGuess e sg enc sent waited rd s = (snd (handleGuess_begin e s), [])"
  by (cases "handleGuess_begin e s") (simp add: handleGuess_def)

text \<open>
  Claim C1. Whatever the wallet, the engine and the chain answer, \<open>handleGuess\<close> makes
  a call (the encryption, the \<open>submitGuess\<close> transaction, the wait, the reads) only if
  \<open>hasJoined\<close> is true and the trimmed input converts to an integer from 1 to 10. For
  an input that does not, no call is made, and the handler only sets the status to the
  invalid-input message: it does so whenever the address is present, the contract
  configured and \<open>hasJoined\<close> true, hence at every click that reaches it, since the
  button that calls it is disabled otherwise.
\<close>

theorem guess_sends_only_valid:
  "(snd (handleGuess e sg enc sent waited rd s) \<noteq> [] \<longrightarrow>
      hasJoined s \<and> (\<exists>i. 1 \<le> i \<and> i \<le> 10 \<and> guessNumber (guessValue s) = Finite i 0))
   \<and> (invalidGuess (guessNumber (guessValue s)) \<longrightarrow>
        snd (handleGuess e sg enc sent waited rd s) = []
        \<and> (truthy (address e) \<and> isContractConfigured e \<and> hasJoined s \<longrightarrow>
             fst (handleGuess e sg enc sent waited rd s) =
               s\<lparr>statusMessage := Some msg_invalid_input\<rparr>)
        \<and> (\<not> guessDisabled e s \<longrightarrow>
             handleGuess e sg enc sent waited rd s =
               (s\<lparr>statusMessage := Some msg_invalid_input\<rparr>, [])))"
proof (intro conjI impI)
  assume calls: "snd (handleGuess e sg enc sent waited rd s) \<noteq> []"
  then have "fst (handleGuess_begin e s) \<noteq> Returned"
    using handleGuess_no_calls [of e s sg enc sent waited rd] by auto
  then have ok: "hasJoined s \<and> \<not> invalidGuess (guessNumber (guessValue s))"
    by (simp add: handleGuess_begin_Returned)
  then show "hasJoined s" by simp
  from ok show "\<exists>i. 1 \<le> i \<and> i \<le> 10 \<and> guessNumber (guessValue s) = Finite i 0"
    by (simp add: valid_guess_iff)
next
  assume bad: "invalidGuess (guessNumber (guessValue s))"
  then have ret: "fst (handleGuess_begin e s) = Returned"
    by (simp add: handleGuess_begin_Returned)
  from handleGuess_no_calls [OF ret] show none: "snd (handleGuess e sg enc sent waited rd s) = []"
    by simp
  have reached: "fst (handleGuess e sg enc sent waited rd s) =
      s\<lparr>statusMessage := Some msg_invalid_input\<rparr>"
    if "truthy (address e) \<and> isContractConfigured e \<and> hasJoined s"
  proof -
    from that bad
    have "snd (handleGuess_begin e s) = s\<lparr>statusMessage := Some msg_invalid_input\<rparr>"
      by (simp add: handleGuess_begin_def)
    with handleGuess_no_calls [OF ret] show ?thesis
      by simp
  qed
  {
    assume "truthy (address e) \<and> isContractConfigured e \<and> hasJoined s"
    then show "fst (handleGuess e sg enc sent waited rd s) =
        s\<lparr>statusMessage := Some msg_invalid_input\<rparr>"
      by (rule reached)
  }
  {
    assume "\<not> guessDisabled e s"
    then have "truthy (address e) \<and> isContractConfigured e \<and> hasJoined s"
      by (simp add: guessDisabled_def)
    from reached [OF this] none
    show "handleGuess e sg enc sent waited rd s =
        (s\<lparr>statusMessage := Some msg_invalid_input\<rparr>, [])"
      by (simp add: prod_eq_iff)
  }
qed

theorem guess_sends_only_valid_witness:
  "snd (handleGuess readyEnv (Inr True) (Inr ([[1, 2]], [3])) (Inr ()) (Inr ())
          (Inr True, Inr 1, Inr handleA) (joinedState\<lparr>guessValue := ascii ''7''\<rparr>)) \<noteq> []
   \<and> hasJoined (joinedState\<lparr>guessValue := ascii ''7''\<rparr>)
   \<and> guessNumber (ascii ''7'') = Finite 7 0
   \<and> \<not> guessDisabled readyEnv (joinedState\<lparr>guessValue := ascii ''0''\<rparr>)
   \<and> invalidGuess (guessNumber (ascii ''0''))
   \<and> handleGuess readyEnv (Inr True) (Inr ([[1, 2]], [3])) (Inr ()) (Inr ())
        (Inr True, Inr 1, Inr handleA) (joinedState\<lparr>guessValue := ascii ''0''\<rparr>)
       = (joinedState\<lparr>guessValue := ascii ''0'', statusMessage := Some msg_invalid_input\<rparr>, [])
   \<and> invalidGuess (guessNumber (ascii ''11''))
   \<and> handleGuess readyEnv (Inr True) (Inr ([[1, 2]], [3])) (Inr ()) (Inr ())
        (Inr True, Inr 1, Inr handleA) (joinedState\<lparr>guessValue := ascii ''11''\<rparr>)
       = (joinedState\<lparr>guessValue := ascii ''11'', statusMessage := Some msg_invalid_input\<rparr>, [])
   \<and> invalidGuess (guessNumber (ascii ''3.5''))
   \<and> handleGuess readyEnv (Inr True) (Inr ([[1, 2]], [3])) (Inr ()) (Inr ())
        (Inr True, Inr 1, Inr handleA) (joinedState\<lparr>guessValue := ascii ''3.5''\<rparr>)
       = (joinedState\<lparr>guessValue := ascii ''3.5'', statusMessage := Some msg_invalid_input\<rparr>, [])
   \<and> invalidGuess (guessNumber (ascii ''abc''))
   \<and> handleGuess readyEnv (Inr True) (Inr ([[1, 2]], [3])) (Inr ()) (Inr ())
        (Inr True, Inr 1, Inr handleA) (joinedState\<lparr>guessValue := ascii ''abc''\<rparr>)
       = (joinedState\<lparr>guessValue := ascii ''abc'', statusMessage := Some msg_invalid_input\<rparr>, [])"
proof -
  let ?run = "handleGuess readyEnv (Inr True) (Inr ([[1, 2]], [3])) (Inr ()) (Inr ())
        (Inr True, Inr 1, Inr handleA)"
  have sent: "snd (?run (joinedState\<lparr>guessValue := ascii ''7''\<rparr>)) \<noteq> []"
    by (simp add: handleGuess_def handleGuess_begin_def handleGuess_resume_def readyEnv_fields
        joinedState_def invalidGuess_examples split: prod.split)
  have pre: "truthy (address readyEnv) \<and> isContractConfigured readyEnv"
    by (simp add: readyEnv_fields)
  have joined: "\<And>v. hasJoined (joinedState\<lparr>guessValue := v\<rparr>)"
    by (simp add: joinedState_def)
  have enabled: "\<And>v. \<not> guessDisabled readyEnv (joinedState\<lparr>guessValue := v\<rparr>)"
    by (simp add: guessDisabled_def readyEnv_fields joinedState_def initialState_def)
  have bad: "invalidGuess (guessNumber (ascii ''0''))" "invalidGuess (guessNumber (ascii ''11''))"
    "invalidGuess (guessNumber (ascii ''3.5''))" "invalidGuess (guessNumber (ascii ''abc''))"
    by (simp_all add: invalidGuess_examples)
  note inst = guess_sends_only_valid [of readyEnv "Inr True" "Inr ([[1, 2]], [3])" "Inr ()" "Inr ()"
      "(Inr True, Inr 1, Inr handleA)"]
  from inst [of "joinedState\<lparr>guessValue := ascii ''7''\<rparr>"] sent
  have a: "guessNumber (ascii ''7'') = Finite 7 0"
    by (simp add: guessNumber_examples)
  from inst [of "joinedState\<lparr>guessValue := ascii ''0''\<rparr>"] bad enabled
  have b: "?run (joinedState\<lparr>guessValue := ascii ''0''\<rparr>)
       = (joinedState\<lparr>guessValue := ascii ''0'', statusMessage := Some msg_invalid_input\<rparr>, [])"
    by (simp add: prod_eq_iff)
  from inst [of "joinedState\<lparr>guessValue := ascii ''11''\<rparr>"] bad enabled
  have c: "?run (joinedState\<lparr>guessValue := ascii ''11''\<rparr>)
       = (joinedState\<lparr>guessValue := ascii ''11'', statusMessage := Some msg_invalid_input\<rparr>, [])"
    by (simp add: prod_eq_iff)
  from inst [of "joinedState\<lparr>guessValue := ascii ''3.5''\<rparr>"] bad enabled
  have d: "?run (joinedState\<lparr>guessValue := ascii ''3.5''\<rparr>)
       = (joinedState\<lparr>guessValue := ascii ''3.5'', statusMessage := Some msg_invalid_input\<rparr>, [])"
    by (simp add: prod_eq_iff)
  from inst [of "joinedState\<lparr>guessValue := ascii ''abc''\<rparr>"] bad enabled
  have f: "?run (joinedState\<lparr>guessValue := ascii ''abc''\<rparr>)
       = (joinedState\<lparr>guessValue := ascii ''abc'', statusMessage := Some msg_invalid_input\<rparr>, [])"
    by (simp add: prod_eq_iff)
  from sent joined enabled a bad b c d f show ?thesis
    by simp
qed

text \<open>
  Claim C10. With the address present, the contract configured and the session joined,
  \<open>handleGuess\<close> decides on \<open>Number(guessValue.trim())\<close>: when that is an integer from
  1 to 10 the guess goes on (to the encryption, if the engine exists), otherwise the
  status is the invalid-input message. The inputs \<open>7.0\<close>, \<open>7\<close> between blanks and
  \<open>0x7\<close> all convert to 7 and are accepted; the empty input converts to 0 and is
  rejected.
\<close>

theorem guess_input_conversion:
  assumes "truthy (address e)" and "isContractConfigured e" and "hasJoined s"
  shows "handleGuess_begin e s =
           (let n = Number_of_string (trim (guessValue s))
            in if isInteger n \<and> \<not> js_less n (Finite 1 0) \<and> \<not> js_less (Finite 10 0) n then
                 (if fheInstance e
                  then (Awaiting n, s\<lparr>isGuessing := True, statusMessage := Some msg_guess_start\<rparr>)
                  else (Returned, s\<lparr>statusMessage := Some msg_engine_offline\<rparr>))
               else (Returned, s\<lparr>statusMessage := Some msg_invalid_input\<rparr>))
       \<and> (guessValue s = ascii ''7.0'' \<or> guessValue s = ascii '' 7 '' \<or> guessValue s = ascii ''0x7''
            \<longrightarrow> Number_of_string (trim (guessValue s)) = Finite 7 0
              \<and> handleGuess_begin e s =
                  (if fheInstance e
                   then (Awaiting (Finite 7 0),
                         s\<lparr>isGuessing := True, statusMessage := Some msg_guess_start\<rparr>)
                   else (Returned, s\<lparr>statusMessage := Some msg_engine_offline\<rparr>)))
       \<and> (guessValue s = [] \<longrightarrow>
            Number_of_string (trim (guessValue s)) = Finite 0 0
            \<and> handleGuess_begin e s = (Returned, s\<lparr>statusMessage := Some msg_invalid_input\<rparr>))"
proof (intro conjI impI)
  show "handleGuess_begin e s =
           (let n = Number_of_string (trim (guessValue s))
            in if isInteger n \<and> \<not> js_less n (Finite 1 0) \<and> \<not> js_less (Finite 10 0) n then
                 (if fheInstance e
                  then (Awaiting n, s\<lparr>isGuessing := True, statusMessage := Some msg_guess_start\<rparr>)
                  else (Returned, s\<lparr>statusMessage := Some msg_engine_offline\<rparr>))
               else (Returned, s\<lparr>statusMessage := Some msg_invalid_input\<rparr>))"
    using assms by (simp add: handleGuess_begin_def invalidGuess_def guessNumber_def Let_def)
next
  assume v: "guessValue s = ascii ''7.0'' \<or> guessValue s = ascii '' 7 '' \<or> guessValue s = ascii ''0x7''"
  then have n: "guessNumber (guessValue s) = Finite 7 0"
    by (auto simp add: guessNumber_examples)
  then show "Number_of_string (trim (guessValue s)) = Finite 7 0"
    by (simp add: guessNumber_def)
  from v have "\<not> invalidGuess (guessNumber (guessValue s))"
    by (auto simp add: invalidGuess_examples)
  with assms n show "handleGuess_begin e s =
                  (if fheInstance e
                   then (Awaiting (Finite 7 0),
                         s\<lparr>isGuessing := True, statusMessage := Some msg_guess_start\<rparr>)
                   else (Returned, s\<lparr>statusMessage := Some msg_engine_offline\<rparr>))"
    by (simp add: handleGuess_begin_def)
next
  assume v: "guessValue s = []"
  then show "Number_of_string (trim (guessValue s)) = Finite 0 0"
    using guessNumber_examples(9) by (simp add: guessNumber_def)
  from v have "invalidGuess (guessNumber (guessValue s))"
    by (simp add: invalidGuess_examples)
  with assms show "handleGuess_begin e s = (Returned, s\<lparr>statusMessage := Some msg_invalid_input\<rparr>)"
    by (simp add: handleGuess_begin_def)
qed

theorem guess_input_conversion_witness:
  "truthy (address readyEnv) \<and> isContractConfigured readyEnv
   \<and> hasJoined (joinedState\<lparr>guessValue := ascii ''0x7''\<rparr>)
   \<and> handleGuess_begin readyEnv (joinedState\<lparr>guessValue := ascii ''0x7''\<rparr>) =
       (Awaiting (Finite 7 0),
        joinedState\<lparr>guessValue := ascii ''0x7'', isGuessing := True,
          statusMessage := Some msg_guess_start\<rparr>)
   \<and> handleGuess_begin readyEnv (joinedState\<lparr>guessValue := ascii '' 7 ''\<rparr>) =
       (Awaiting (Finite 7 0),
        joinedState\<lparr>guessValue := ascii '' 7 '', isGuessing := True,
          statusMessage := Some msg_guess_start\<rparr>)
   \<and> handleGuess_begin readyEnv (joinedState\<lparr>guessValue := ascii ''7.0''\<rparr>) =
       (Awaiting (Finite 7 0),
        joinedState\<lparr>guessValue := ascii ''7.0'', isGuessing := True,
          statusMessage := Some msg_guess_start\<rparr>)
   \<and> handleGuess_begin readyEnv (joinedState\<lparr>guessValue := []\<rparr>) =
       (Returned, joinedState\<lparr>guessValue := [], statusMessage := Some msg_invalid_input\<rparr>)"
proof -
  have joined: "\<And>v. hasJoined (joinedState\<lparr>guessValue := v\<rparr>)"
    by (simp add: joinedState_def)
  note inst = guess_input_conversion [OF readyEnv_fields(1) readyEnv_fields(2) joined]
  have a: "handleGuess_begin readyEnv (joinedState\<lparr>guessValue := ascii ''0x7''\<rparr>) =
       (Awaiting (Finite 7 0),
        joinedState\<lparr>guessValue := ascii ''0x7'', isGuessing := True,
          statusMessage := Some msg_guess_start\<rparr>)"
    using inst [of "ascii ''0x7''", THEN conjunct2, THEN conjunct1]
    by (simp add: readyEnv_fields)
  have b: "handleGuess_begin readyEnv (joinedState\<lparr>guessValue := ascii '' 7 ''\<rparr>) =
       (Awaiting (Finite 7 0),
        joinedState\<lparr>guessValue := ascii '' 7 '', isGuessing := True,
          statusMessage := Some msg_guess_start\<rparr>)"
    using inst [of "ascii '' 7 ''", THEN conjunct2, THEN conjunct1]
    by (simp add: readyEnv_fields)
  have c: "handleGuess_begin readyEnv (joinedState\<lparr>guessValue := ascii ''7.0''\<rparr>) =
       (Awaiting (Finite 7 0),
        joinedState\<lparr>guessValue := ascii ''7.0'', isGuessing := True,
          statusMessage := Some msg_guess_start\<rparr>)"
    using inst [of "ascii ''7.0''", THEN conjunct2, THEN conjunct1]
    by (simp add: readyEnv_fields)
  have d: "handleGuess_begin readyEnv (joinedState\<lparr>guessValue := []\<rparr>) =
       (Returned, joinedState\<lparr>guessValue := [], statusMessage := Some msg_invalid_input\<rparr>)"
    using inst [of "[]", THEN conjunct2, THEN conjunct2]
    by simp
  from a b c d show ?thesis
    by (simp add: readyEnv_fields joined)
qed

section \<open>The busy flags\<close>

text \<open>Each busy flag is written by its own handler only.\<close>

lemma busy_flags_kept:
  "isJoining (snd (handleGuess_begin e s)) = isJoining s"
  "isJoining (fst (handleGuess_resume e n sg enc sent waited rd s)) = isJoining s"
  "isJoining (fst (snd (decryptCiphertext_begin e kp eip c s))) = isJoining s"
  "isJoining (fst (decryptCiphertext_resume c sg sig ans s)) = isJoining s"
  "isGuessing (snd (handleJoin_begin e s)) = isGuessing s"
  "isGuessing (fst (handleJoin_resume e sg sent waited rd s)) = isGuessing s"
  "isGuessing (fst (snd (decryptCiphertext_begin e kp eip c s))) = isGuessing s"
  "isGuessing (fst (decryptCiphertext_resume c sg sig ans s)) = isGuessing s"
  "isDecrypting (snd (handleJoin_begin e s)) = isDecrypting s"
  "isDecrypting (fst (handleJoin_resume e sg sent waited rd s)) = isDecrypting s"
  "isDecrypting (snd (handleGuess_begin e s)) = isDecrypting s"
  "isDecrypting (fst (handleGuess_resume e n sg enc sent waited rd s)) = isDecrypting s"
  by (simp_all add: handleGuess_begin_def handleGuess_resume_def guessFailed_def
      handleJoin_begin_def handleJoin_resume_def joinFailed_def decryptCiphertext_begin_def
      decryptCiphertext_resume_def decryptFailed_def storeDecrypted_def Let_def
      refreshPlayerData_def clearPlayerData_def applyPlayerData_flags
      split: sum.split bool.split prod.split option.split)

section \<open>Properties of \<open>decryptCiphertext\<close>\<close>

lemma decryptFailed_fields:
  "feedbackCode (fst (decryptFailed err cs s)) = feedbackCode s"
  "lastDecryptedCipher (fst (decryptFailed err cs s)) = lastDecryptedCipher s"
  "statusMessage (fst (decryptFailed err cs s)) = Some (errorMessage err msg_decrypt_failed)"
  "isDecrypting (fst (decryptFailed err cs s)) = False"
  "snd (decryptFailed err cs s) = cs @ [ConsoleError (ascii ''Failed to decrypt result'')]"
  by (simp_all add: decryptFailed_def)

lemma decrypt_resume_not_busy:
  "\<not> isDecrypting (fst (decryptCiphertext_resume cipher sg sig ans s))"
  by (auto simp add: decryptCiphertext_resume_def decryptFailed_def storeDecrypted_def Let_def
      split: sum.split bool.split option.split)

lemma decrypt_resume_requests:
  "length (filter isUserDecrypt (snd (decryptCiphertext_resume cipher sg sig ans s))) =
     (case (sg, sig) of (Inr True, Inr _) \<Rightarrow> 1 | _ \<Rightarrow> 0)"
  by (auto simp add: decryptCiphertext_resume_def decryptFailed_def isUserDecrypt_def Let_def
      split: sum.split bool.split)

lemma decrypt_begin_busy:
  "isDecrypting s \<Longrightarrow> decryptCiphertext_begin e kp eip cipher s = (Returned, s, [])"
  by (simp add: decryptCiphertext_begin_def)

lemma decrypt_begin_pending:
  assumes "decryptCiphertext_begin e kp eip cipher s = (Awaiting c, s1, cs1)"
  shows "isDecrypting s1" and "cs1 = [GenerateKeypair, CreateEIP712]" and "c = cipher"
    and "\<not> isDecrypting s"
  using assms
  by (auto simp add: decryptCiphertext_begin_def decryptFailed_def Let_def
      split: if_splits sum.splits)

text \<open>
  Claim C5. A call of \<open>decryptCiphertext\<close> that finds \<open>isDecrypting\<close> set returns at
  once: the state is unchanged and nothing is called. A call that is suspended at its
  \<open>await\<close> has set the flag, so a second call issued then, for any cipher, is such a
  no-op, and the two calls together send exactly one \<open>userDecrypt\<close> request when the
  signer and the signature arrive (none when they do not). The flag is cleared when the
  pending call ends, and until then nothing else clears it: \<open>handleJoin\<close>,
  \<open>handleGuess\<close> and the refresh leave \<open>isDecrypting\<close> as it is.
\<close>

theorem decrypt_single_flight:
  "(isDecrypting s \<longrightarrow> decryptCiphertext_begin e kp eip cipher s = (Returned, s, []))
   \<and> (\<forall>c s1 cs1. decryptCiphertext_begin e kp eip cipher s = (Awaiting c, s1, cs1) \<longrightarrow>
        isDecrypting s1
        \<and> decryptCiphertext_begin e kp' eip' cipher' s1 = (Returned, s1, [])
        \<and> length (filter isUserDecrypt
             (cs1 @ snd (snd (decryptCiphertext_begin e kp' eip' cipher' s1))
                  @ snd (decryptCiphertext_resume c sg sig ans s1)))
            = (case (sg, sig) of (Inr True, Inr _) \<Rightarrow> 1 | _ \<Rightarrow> 0))
   \<and> \<not> isDecrypting (fst (decryptCiphertext_resume cipher sg sig ans s))
   \<and> isDecrypting (snd (handleJoin_begin e s)) = isDecrypting s
   \<and> isDecrypting (fst (handleJoin_resume e sg sent waited rd s)) = isDecrypting s
   \<and> isDecrypting (snd (handleGuess_begin e s)) = isDecrypting s
   \<and> isDecrypting (fst (handleGuess_resume e n sg enc sent waited rd s)) = isDecrypting s
   \<and> isDecrypting (fst (refreshPlayerData e rd s)) = isDecrypting s"
proof (intro conjI impI allI)
  assume "isDecrypting s"
  then show "decryptCiphertext_begin e kp eip cipher s = (Returned, s, [])"
    by (rule decrypt_begin_busy)
next
  fix c s1 cs1
  assume pending: "decryptCiphertext_begin e kp eip cipher s = (Awaiting c, s1, cs1)"
  from decrypt_begin_pending(1) [OF pending] show busy: "isDecrypting s1" .
  from decrypt_begin_busy [OF busy]
  show second: "decryptCiphertext_begin e kp' eip' cipher' s1 = (Returned, s1, [])" .
  from decrypt_begin_pending(2) [OF pending] second
  show "length (filter isUserDecrypt
             (cs1 @ snd (snd (decryptCiphertext_begin e kp' eip' cipher' s1))
                  @ snd (decryptCiphertext_resume c sg sig ans s1)))
            = (case (sg, sig) of (Inr True, Inr _) \<Rightarrow> 1 | _ \<Rightarrow> 0)"
    by (simp add: decrypt_resume_requests isUserDecrypt_def)
next
  show "\<not> isDecrypting (fst (decryptCiphertext_resume cipher sg sig ans s))"
    by (rule decrypt_resume_not_busy)
next
  show "isDecrypting (snd (handleJoin_begin e s)) = isDecrypting s"
    by (rule busy_flags_kept)
next
  show "isDecrypting (fst (handleJoin_resume e sg sent waited rd s)) = isDecrypting s"
    by (rule busy_flags_kept)
next
  show "isDecrypting (snd (handleGuess_begin e s)) = isDecrypting s"
    by (rule busy_flags_kept)
next
  show "isDecrypting (fst (handleGuess_resume e n sg enc sent waited rd s)) = isDecrypting s"
    by (rule busy_flags_kept)
next
  show "isDecrypting (fst (refreshPlayerData e rd s)) = isDecrypting s"
    by (rule refresh_flags)
qed


theorem decrypt_single_flight_witness:
  "\<not> isDecrypting pendingState
   \<and> decryptCiphertext_begin readyEnv (Inr ()) (Inr ()) handleA pendingState =
       (Awaiting handleA,
        pendingState\<lparr>isDecrypting := True, statusMessage := Some msg_decrypt_start\<rparr>,
        [GenerateKeypair, CreateEIP712])
   \<and> decryptCiphertext_begin readyEnv (Inr ()) (Inr ()) handleB
        (pendingState\<lparr>isDecrypting := True, statusMessage := Some msg_decrypt_start\<rparr>) =
       (Returned, pendingState\<lparr>isDecrypting := True, statusMessage := Some msg_decrypt_start\<rparr>, [])
   \<and> length (filter isUserDecrypt
        ([GenerateKeypair, CreateEIP712] @ []
         @ snd (decryptCiphertext_resume handleA (Inr True) (Inr (ascii ''0x1b''))
             (Inr (Some [(handleA, ascii ''2'')]))
             (pendingState\<lparr>isDecrypting := True, statusMessage := Some msg_decrypt_start\<rparr>))))
       = 1"
proof -
  let ?s1 = "pendingState\<lparr>isDecrypting := True, statusMessage := Some msg_decrypt_start\<rparr>"
  have idle: "\<not> isDecrypting pendingState"
    by (simp add: pendingState_def joinedState_def initialState_def)
  have first: "decryptCiphertext_begin readyEnv (Inr ()) (Inr ()) handleA pendingState =
       (Awaiting handleA, ?s1, [GenerateKeypair, CreateEIP712])"
    by (simp add: decryptCiphertext_begin_def readyEnv_fields idle)
  note inst = decrypt_single_flight [of pendingState readyEnv "Inr ()" "Inr ()" handleA "Inr ()"
      "Inr ()" handleB "Inr True" "Inr (ascii ''0x1b'')" "Inr (Some [(handleA, ascii ''2'')])",
      THEN conjunct2, THEN conjunct1, rule_format, OF first]
  from inst have second:
    "decryptCiphertext_begin readyEnv (Inr ()) (Inr ()) handleB ?s1 = (Returned, ?s1, [])"
    by (rule conjunct2 [THEN conjunct1])
  from inst have "length (filter isUserDecrypt
        ([GenerateKeypair, CreateEIP712]
         @ snd (snd (decryptCiphertext_begin readyEnv (Inr ()) (Inr ()) handleB ?s1))
         @ snd (decryptCiphertext_resume handleA (Inr True) (Inr (ascii ''0x1b''))
             (Inr (Some [(handleA, ascii ''2'')])) ?s1)))
       = (case (Inr True :: bool outcome, Inr (ascii ''0x1b'') :: jsstring outcome) of
            (Inr True, Inr _) \<Rightarrow> 1 | _ \<Rightarrow> 0)"
    by (rule conjunct2 [THEN conjunct2])
  then have count: "length (filter isUserDecrypt
        ([GenerateKeypair, CreateEIP712] @ []
         @ snd (decryptCiphertext_resume handleA (Inr True) (Inr (ascii ''0x1b''))
             (Inr (Some [(handleA, ascii ''2'')])) ?s1)))
       = 1"
    unfolding second by simp
  show ?thesis
    by (intro conjI) (rule idle, rule first, rule second, rule count)
qed

lemma extractRawValue_keyed:
  "map_of kvs cipher = Some v \<Longrightarrow> v \<noteq> [] \<Longrightarrow> extractRawValue cipher (Some kvs) = Some v"
  by (simp add: extractRawValue_def truthy_def)

lemma extractRawValue_fallback:
  "map_of kvs cipher = None \<Longrightarrow>
   extractRawValue cipher (Some kvs) = (case kvs of [] \<Rightarrow> None | kv # _ \<Rightarrow> Some (snd kv))"
  by (cases kvs) (simp_all add: extractRawValue_def truthy_def)

lemma extractRawValue_absent:
  "extractRawValue cipher None = None" "extractRawValue cipher (Some []) = None"
  by (simp_all add: extractRawValue_def truthy_def)

lemma isInteger_Number_of_string:
  "isInteger (Number_of_string v) \<longleftrightarrow> (\<exists>i. Number_of_string v = Finite i 0)"
proof (cases "Number_of_string v")
  case (Finite m k)
  then have "k = 0 \<or> odd m"
    by (rule Number_of_string_normal)
  from integer_normal [OF this] Finite show ?thesis
    by auto
qed (simp_all add: isInteger_def)

lemma decrypt_resume_answered:
  "decryptCiphertext_resume cipher (Inr True) (Inr sig) (Inr response) s =
     (case storeDecrypted cipher response s of
        Inl err \<Rightarrow> decryptFailed err [SignTypedData, UserDecrypt cipher (replace0x sig)] s
      | Inr s1 \<Rightarrow> (s1\<lparr>isDecrypting := False\<rparr>, [SignTypedData, UserDecrypt cipher (replace0x sig)]))"
  by (simp add: decryptCiphertext_resume_def Let_def)

text \<open>
  Claim C6. The raw value is the one stored under the requested handle when that is
  present and not empty, and the first value of the answer when the handle is not a key;
  there is none when the answer is \<open>null\<close> or has no values. Once the signer, the
  signature and the answer have arrived: without a raw value (or with an empty one) the
  run ends with the status "No decrypted value returned"; with a raw value that
  \<open>Number\<close> does not convert to an integer it ends with "Unexpected decrypted format";
  in both cases the failure is logged and the feedback is untouched. Otherwise the
  integer becomes \<open>feedbackCode\<close> and the handle \<open>lastDecryptedCipher\<close>.
\<close>

theorem decrypt_extraction:
  "(\<forall>kvs v. response = Some kvs \<and> map_of kvs cipher = Some v \<and> v \<noteq> [] \<longrightarrow>
       extractRawValue cipher response = Some v)
   \<and> (\<forall>kvs. response = Some kvs \<and> map_of kvs cipher = None \<longrightarrow>
        extractRawValue cipher response = (case kvs of [] \<Rightarrow> None | kv # _ \<Rightarrow> Some (snd kv)))
   \<and> (response = None \<or> response = Some [] \<longrightarrow> extractRawValue cipher response = None)
   \<and> (extractRawValue cipher response = None \<or> extractRawValue cipher response = Some [] \<longrightarrow>
        decryptCiphertext_resume cipher (Inr True) (Inr sig) (Inr response) s =
          (s\<lparr>statusMessage := Some msg_no_value, isDecrypting := False\<rparr>,
           [SignTypedData, UserDecrypt cipher (replace0x sig),
            ConsoleError (ascii ''Failed to decrypt result'')]))
   \<and> (\<forall>raw. extractRawValue cipher response = Some raw \<and> raw \<noteq> []
          \<and> \<not> isInteger (Number_of_string raw) \<longrightarrow>
        decryptCiphertext_resume cipher (Inr True) (Inr sig) (Inr response) s =
          (s\<lparr>statusMessage := Some msg_bad_format, isDecrypting := False\<rparr>,
           [SignTypedData, UserDecrypt cipher (replace0x sig),
            ConsoleError (ascii ''Failed to decrypt result'')]))
   \<and> (\<forall>raw. extractRawValue cipher response = Some raw \<and> raw \<noteq> []
          \<and> isInteger (Number_of_string raw) \<longrightarrow>
        (\<exists>i. Number_of_string raw = Finite i 0
           \<and> decryptCiphertext_resume cipher (Inr True) (Inr sig) (Inr response) s =
               (s\<lparr>feedbackCode := Some (Finite i 0), lastDecryptedCipher := Some cipher,
                  statusMessage := Some msg_decoded, isDecrypting := False\<rparr>,
                [SignTypedData, UserDecrypt cipher (replace0x sig)])))"
proof (intro conjI allI impI)
  fix kvs v
  assume "response = Some kvs \<and> map_of kvs cipher = Some v \<and> v \<noteq> []"
  then show "extractRawValue cipher response = Some v"
    by (simp add: extractRawValue_keyed)
next
  fix kvs
  assume "response = Some kvs \<and> map_of kvs cipher = None"
  then show "extractRawValue cipher response = (case kvs of [] \<Rightarrow> None | kv # _ \<Rightarrow> Some (snd kv))"
    by (simp add: extractRawValue_fallback)
next
  assume "response = None \<or> response = Some []"
  then show "extractRawValue cipher response = None"
    by (auto simp add: extractRawValue_absent)
next
  assume "extractRawValue cipher response = None \<or> extractRawValue cipher response = Some []"
  then have "storeDecrypted cipher response s = Inl (Error msg_no_value)"
    by (auto simp add: storeDecrypted_def)
  then show "decryptCiphertext_resume cipher (Inr True) (Inr sig) (Inr response) s =
          (s\<lparr>statusMessage := Some msg_no_value, isDecrypting := False\<rparr>,
           [SignTypedData, UserDecrypt cipher (replace0x sig),
            ConsoleError (ascii ''Failed to decrypt result'')])"
    by (simp add: decrypt_resume_answered decryptFailed_def errorMessage_def)
next
  fix raw
  assume "extractRawValue cipher response = Some raw \<and> raw \<noteq> []
          \<and> \<not> isInteger (Number_of_string raw)"
  then have "storeDecrypted cipher response s = Inl (Error msg_bad_format)"
    by (simp add: storeDecrypted_def)
  then show "decryptCiphertext_resume cipher (Inr True) (Inr sig) (Inr response) s =
          (s\<lparr>statusMessage := Some msg_bad_format, isDecrypting := False\<rparr>,
           [SignTypedData, UserDecrypt cipher (replace0x sig),
            ConsoleError (ascii ''Failed to decrypt result'')])"
    by (simp add: decrypt_resume_answered decryptFailed_def errorMessage_def)
next
  fix raw
  assume raw: "extractRawValue cipher response = Some raw \<and> raw \<noteq> []
          \<and> isInteger (Number_of_string raw)"
  then obtain i where i: "Number_of_string raw = Finite i 0"
    by (auto simp add: isInteger_Number_of_string)
  with raw have "storeDecrypted cipher response s =
      Inr (s\<lparr>feedbackCode := Some (Finite i 0), lastDecryptedCipher := Some cipher,
             statusMessage := Some msg_decoded\<rparr>)"
    by (simp add: storeDecrypted_def)
  then have "decryptCiphertext_resume cipher (Inr True) (Inr sig) (Inr response) s =
               (s\<lparr>feedbackCode := Some (Finite i 0), lastDecryptedCipher := Some cipher,
                  statusMessage := Some msg_decoded, isDecrypting := False\<rparr>,
                [SignTypedData, UserDecrypt cipher (replace0x sig)])"
    by (simp add: decrypt_resume_answered)
  with i show "\<exists>i. Number_of_string raw = Finite i 0
           \<and> decryptCiphertext_resume cipher (Inr True) (Inr sig) (Inr response) s =
               (s\<lparr>feedbackCode := Some (Finite i 0), lastDecryptedCipher := Some cipher,
                  statusMessage := Some msg_decoded, isDecrypting := False\<rparr>,
                [SignTypedData, UserDecrypt cipher (replace0x sig)])"
    by blast
qed

lemma Number_of_string_examples:
  "Number_of_string (ascii ''2'') = Finite 2 0"
  "Number_of_string (ascii ''3'') = Finite 3 0"
  "Number_of_string (ascii ''2.5'') = Finite 5 1"
  by (simp_all add: number_eval)

theorem decrypt_extraction_witness:
  "decryptCiphertext_resume handleA (Inr True) (Inr (ascii ''0x1b''))
      (Inr (Some [(handleB, ascii ''3''), (handleA, ascii ''2'')])) pendingState =
     (pendingState\<lparr>feedbackCode := Some (Finite 2 0), lastDecryptedCipher := Some handleA,
        statusMessage := Some msg_decoded, isDecrypting := False\<rparr>,
      [SignTypedData, UserDecrypt handleA (ascii ''1b'')])
   \<and> decryptCiphertext_resume handleA (Inr True) (Inr (ascii ''0x1b''))
      (Inr (Some [(handleB, ascii ''3'')])) pendingState =
     (pendingState\<lparr>feedbackCode := Some (Finite 3 0), lastDecryptedCipher := Some handleA,
        statusMessage := Some msg_decoded, isDecrypting := False\<rparr>,
      [SignTypedData, UserDecrypt handleA (ascii ''1b'')])
   \<and> decryptCiphertext_resume handleA (Inr True) (Inr (ascii ''0x1b'')) (Inr (Some []))
        pendingState =
     (pendingState\<lparr>statusMessage := Some msg_no_value, isDecrypting := False\<rparr>,
      [SignTypedData, UserDecrypt handleA (ascii ''1b''),
       ConsoleError (ascii ''Failed to decrypt result'')])
   \<and> decryptCiphertext_resume handleA (Inr True) (Inr (ascii ''0x1b''))
      (Inr (Some [(handleA, ascii ''2.5'')])) pendingState =
     (pendingState\<lparr>statusMessage := Some msg_bad_format, isDecrypting := False\<rparr>,
      [SignTypedData, UserDecrypt handleA (ascii ''1b''),
       ConsoleError (ascii ''Failed to decrypt result'')])"
proof -
  have sig: "replace0x (ascii ''0x1b'') = ascii ''1b''"
    by (simp add: ascii_def)
  have keyed: "extractRawValue handleA (Some [(handleB, ascii ''3''), (handleA, ascii ''2'')])
      = Some (ascii ''2'')"
    using handles_distinct(1) by (simp add: extractRawValue_def truthy_def ascii_def)
  have first: "extractRawValue handleA (Some [(handleB, ascii ''3'')]) = Some (ascii ''3'')"
    using handles_distinct(1) by (simp add: extractRawValue_def truthy_def)
  have frac: "extractRawValue handleA (Some [(handleA, ascii ''2.5'')]) = Some (ascii ''2.5'')"
    by (simp add: extractRawValue_def truthy_def ascii_def)
  have nonempty: "ascii ''2'' \<noteq> []" "ascii ''3'' \<noteq> []" "ascii ''2.5'' \<noteq> []"
    by (simp_all add: ascii_def)
  have ints: "isInteger (Number_of_string (ascii ''2''))" "isInteger (Number_of_string (ascii ''3''))"
    "\<not> isInteger (Number_of_string (ascii ''2.5''))"
    by (simp_all add: Number_of_string_examples isInteger_def)
  have a: "decryptCiphertext_resume handleA (Inr True) (Inr (ascii ''0x1b''))
      (Inr (Some [(handleB, ascii ''3''), (handleA, ascii ''2'')])) pendingState =
     (pendingState\<lparr>feedbackCode := Some (Finite 2 0), lastDecryptedCipher := Some handleA,
        statusMessage := Some msg_decoded, isDecrypting := False\<rparr>,
      [SignTypedData, UserDecrypt handleA (ascii ''1b'')])"
    using decrypt_extraction [where response = "Some [(handleB, ascii ''3''), (handleA, ascii ''2'')]"
        and cipher = handleA and sig = "ascii ''0x1b''" and s = pendingState]
      keyed nonempty ints
    by (auto simp add: sig Number_of_string_examples)
  have b: "decryptCiphertext_resume handleA (Inr True) (Inr (ascii ''0x1b''))
      (Inr (Some [(handleB, ascii ''3'')])) pendingState =
     (pendingState\<lparr>feedbackCode := Some (Finite 3 0), lastDecryptedCipher := Some handleA,
        statusMessage := Some msg_decoded, isDecrypting := False\<rparr>,
      [SignTypedData, UserDecrypt handleA (ascii ''1b'')])"
    using decrypt_extraction [where response = "Some [(handleB, ascii ''3'')]"
        and cipher = handleA and sig = "ascii ''0x1b''" and s = pendingState]
      first nonempty ints
    by (auto simp add: sig Number_of_string_examples)
  have c: "decryptCiphertext_resume handleA (Inr True) (Inr (ascii ''0x1b'')) (Inr (Some []))
        pendingState =
     (pendingState\<lparr>statusMessage := Some msg_no_value, isDecrypting := False\<rparr>,
      [SignTypedData, UserDecrypt handleA (ascii ''1b''),
       ConsoleError (ascii ''Failed to decrypt result'')])"
    using decrypt_extraction [where response = "Some []"
        and cipher = handleA and sig = "ascii ''0x1b''" and s = pendingState]
    by (simp add: sig extractRawValue_absent)
  have d: "decryptCiphertext_resume handleA (Inr True) (Inr (ascii ''0x1b''))
      (Inr (Some [(handleA, ascii ''2.5'')])) pendingState =
     (pendingState\<lparr>statusMessage := Some msg_bad_format, isDecrypting := False\<rparr>,
      [SignTypedData, UserDecrypt handleA (ascii ''1b''),
       ConsoleError (ascii ''Failed to decrypt result'')])"
    using decrypt_extraction [where response = "Some [(handleA, ascii ''2.5'')]"
        and cipher = handleA and sig = "ascii ''0x1b''" and s = pendingState]
      frac nonempty ints
    by (auto simp add: sig)
  show ?thesis
    by (intro conjI) (rule a, rule b, rule c, rule d)
qed

section \<open>Busy flags and failed preconditions\<close>

lemma join_resume_not_busy:
  "\<not> isJoining (fst (handleJoin_resume e sg sent waited rd s))"
  by (simp add: handleJoin_resume_def joinFailed_def Let_def
      split: sum.split bool.split prod.split)

lemma guess_resume_not_busy:
  "\<not> isGuessing (fst (handleGuess_resume e n sg enc sent waited rd s))"
  by (simp add: handleGuess_resume_def guessFailed_def Let_def
      split: sum.split bool.split prod.split)

lemma join_begin_pending:
  "handleJoin_begin e s = (Awaiting u, s1) \<Longrightarrow>
   isJoining s1 \<and> truthy (address e) \<and> isContractConfigured e"
  by (auto simp add: handleJoin_begin_def split: if_splits)

lemma guess_begin_pending:
  "handleGuess_begin e s = (Awaiting n, s1) \<Longrightarrow> isGuessing s1"
  by (auto simp add: handleGuess_begin_def split: if_splits)

text \<open>
  Claim C2. Join and guess are single-flight, each by its own busy flag. \<open>handleJoin\<close>
  and \<open>handleGuess\<close> are called by their buttons only; each sets its flag before its
  first \<open>await\<close> and clears it when it ends, and its button is disabled while the flag
  is set. So a click while the operation is pending returns at once with the state
  unchanged: nothing is suspended, and no second transaction is sent. While an operation
  is pending nothing else clears its flag: the other handlers and the refresh leave it as
  it is. The flag is tested by the button, not by the handler: whether the first part of
  a handler returns or goes on does not depend on it.
\<close>

theorem single_flight_at_buttons:
  "(\<forall>u s1. handleJoin_begin e s = (Awaiting u, s1) \<longrightarrow>
       isJoining s1 \<and> clickJoin e s1 = (Returned, s1))
   \<and> (isJoining s \<longrightarrow> clickJoin e s = (Returned, s))
   \<and> \<not> isJoining (fst (handleJoin_resume e sg sent waited rd s))
   \<and> (\<forall>n s1. handleGuess_begin e s = (Awaiting n, s1) \<longrightarrow>
        isGuessing s1 \<and> clickGuess e s1 = (Returned, s1))
   \<and> (isGuessing s \<longrightarrow> clickGuess e s = (Returned, s))
   \<and> \<not> isGuessing (fst (handleGuess_resume e n sg enc sent waited rd s))
   \<and> fst (handleJoin_begin e (s\<lparr>isJoining := True\<rparr>)) = fst (handleJoin_begin e s)
   \<and> fst (handleGuess_begin e (s\<lparr>isGuessing := True\<rparr>)) = fst (handleGuess_begin e s)
   \<and> isJoining (snd (handleGuess_begin e s)) = isJoining s
   \<and> isJoining (fst (handleGuess_resume e n sg enc sent waited rd s)) = isJoining s
   \<and> isJoining (fst (snd (decryptCiphertext_begin e kp eip c s))) = isJoining s
   \<and> isJoining (fst (decryptCiphertext_resume c sg sig ans s)) = isJoining s
   \<and> isJoining (fst (refreshPlayerData e rd s)) = isJoining s
   \<and> isGuessing (snd (handleJoin_begin e s)) = isGuessing s
   \<and> isGuessing (fst (handleJoin_resume e sg sent waited rd s)) = isGuessing s
   \<and> isGuessing (fst (snd (decryptCiphertext_begin e kp eip c s))) = isGuessing s
   \<and> isGuessing (fst (decryptCiphertext_resume c sg sig ans s)) = isGuessing s
   \<and> isGuessing (fst (refreshPlayerData e rd s)) = isGuessing s"
proof (intro conjI allI impI)
  fix u s1
  assume "handleJoin_begin e s = (Awaiting u, s1)"
  from join_begin_pending [OF this] show "isJoining s1" and "clickJoin e s1 = (Returned, s1)"
    by (simp_all add: clickJoin_def joinDisabled_def)
next
  assume "isJoining s"
  then show "clickJoin e s = (Returned, s)"
    by (simp add: clickJoin_def joinDisabled_def)
next
  show "\<not> isJoining (fst (handleJoin_resume e sg sent waited rd s))"
    by (rule join_resume_not_busy)
next
  fix n s1
  assume "handleGuess_begin e s = (Awaiting n, s1)"
  from guess_begin_pending [OF this] show "isGuessing s1" and "clickGuess e s1 = (Returned, s1)"
    by (simp_all add: clickGuess_def guessDisabled_def)
next
  assume "isGuessing s"
  then show "clickGuess e s = (Returned, s)"
    by (simp add: clickGuess_def guessDisabled_def)
next
  show "\<not> isGuessing (fst (handleGuess_resume e n sg enc sent waited rd s))"
    by (rule guess_resume_not_busy)
next
  show "fst (handleJoin_begin e (s\<lparr>isJoining := True\<rparr>)) = fst (handleJoin_begin e s)"
    by (simp add: handleJoin_begin_def)
next
  show "fst (handleGuess_begin e (s\<lparr>isGuessing := True\<rparr>)) = fst (handleGuess_begin e s)"
    by (simp add: handleGuess_begin_def)
qed (rule busy_flags_kept refresh_flags)+

theorem single_flight_at_buttons_witness:
  "handleJoin_begin readyEnv initialState = (Awaiting (), joinPendingState)
   \<and> isJoining joinPendingState
   \<and> clickJoin readyEnv joinPendingState = (Returned, joinPendingState)
   \<and> \<not> isJoining (fst (handleJoin_resume readyEnv (Inr True) (Inr ()) (Inr ())
        (Inr True, Inr 1, Inr ZERO_CIPHERTEXT) joinPendingState))
   \<and> handleGuess_begin readyEnv (joinedState\<lparr>guessValue := ascii ''7''\<rparr>) =
       (Awaiting (Finite 7 0),
        joinedState\<lparr>guessValue := ascii ''7'', isGuessing := True,
          statusMessage := Some msg_guess_start\<rparr>)
   \<and> clickGuess readyEnv
        (joinedState\<lparr>guessValue := ascii ''7'', isGuessing := True,
           statusMessage := Some msg_guess_start\<rparr>) =
       (Returned,
        joinedState\<lparr>guessValue := ascii ''7'', isGuessing := True,
          statusMessage := Some msg_guess_start\<rparr>)"
proof -
  have j: "handleJoin_begin readyEnv initialState = (Awaiting (), joinPendingState)"
    by (simp add: joinPendingState_def handleJoin_begin_def readyEnv_fields)
  have g: "handleGuess_begin readyEnv (joinedState\<lparr>guessValue := ascii ''7''\<rparr>) =
       (Awaiting (Finite 7 0),
        joinedState\<lparr>guessValue := ascii ''7'', isGuessing := True,
          statusMessage := Some msg_guess_start\<rparr>)"
    by (simp add: handleGuess_begin_def readyEnv_fields joinedState_def guessNumber_examples
        invalidGuess_def isInteger_def js_less_def)
  note join1 = single_flight_at_buttons [where e = readyEnv and s = initialState,
      THEN conjunct1, rule_format, OF j]
  note join3 = single_flight_at_buttons [where e = readyEnv and s = joinPendingState
      and sg = "Inr True" and sent = "Inr ()" and waited = "Inr ()"
      and rd = "(Inr True, Inr 1, Inr ZERO_CIPHERTEXT)",
      THEN conjunct2, THEN conjunct2, THEN conjunct1]
  note guess1 = single_flight_at_buttons [where e = readyEnv
      and s = "joinedState\<lparr>guessValue := ascii ''7''\<rparr>",
      THEN conjunct2, THEN conjunct2, THEN conjunct2, THEN conjunct1, rule_format, OF g]
  show ?thesis
    by (intro conjI) (rule j, rule join1 [THEN conjunct1], rule join1 [THEN conjunct2],
      rule join3, rule g, rule guess1 [THEN conjunct2])
qed

text \<open>
  Claim C9. Without a cipher engine instance, an account address or a configured contract
  address, \<open>decryptCiphertext\<close> returns at once: the state is unchanged in every field,
  the status message included, and nothing is called or logged. The other failed
  preconditions all set the status message, each to a text that is not empty: a missing
  address or contract address in \<open>handleJoin\<close> and \<open>handleGuess\<close>, a session that has
  not joined, an invalid input, a missing engine in \<open>handleGuess\<close>, a missing signer
  in all three operations, and no result or no contract address in \<open>manualDecrypt\<close>.
  (The test of the busy flag that follows the guard is the subject of C5.)
\<close>

theorem decrypt_silent_return:
  "(\<not> fheInstance e \<or> \<not> truthy (address e) \<or> \<not> isContractConfigured e \<longrightarrow>
      decryptCiphertext_begin e kp eip cipher s = (Returned, s, []))
   \<and> (\<not> truthy (address e) \<longrightarrow>
        handleJoin_begin e s = (Returned, s\<lparr>statusMessage := Some msg_join_no_wallet\<rparr>)
        \<and> handleGuess_begin e s = (Returned, s\<lparr>statusMessage := Some msg_guess_no_wallet\<rparr>))
   \<and> (truthy (address e) \<and> \<not> isContractConfigured e \<longrightarrow>
        handleJoin_begin e s = (Returned, s\<lparr>statusMessage := Some msg_not_configured\<rparr>)
        \<and> handleGuess_begin e s = (Returned, s\<lparr>statusMessage := Some msg_not_configured\<rparr>))
   \<and> (truthy (address e) \<and> isContractConfigured e \<and> \<not> hasJoined s \<longrightarrow>
        handleGuess_begin e s = (Returned, s\<lparr>statusMessage := Some msg_not_joined\<rparr>))
   \<and> (truthy (address e) \<and> isContractConfigured e \<and> hasJoined s
        \<and> invalidGuess (guessNumber (guessValue s)) \<longrightarrow>
        handleGuess_begin e s = (Returned, s\<lparr>statusMessage := Some msg_invalid_input\<rparr>))
   \<and> (truthy (address e) \<and> isContractConfigured e \<and> hasJoined s
        \<and> \<not> invalidGuess (guessNumber (guessValue s)) \<and> \<not> fheInstance e \<longrightarrow>
        handleGuess_begin e s = (Returned, s\<lparr>statusMessage := Some msg_engine_offline\<rparr>))
   \<and> statusMessage (fst (handleJoin_resume e (Inr False) sent waited rd s))
       = Some msg_signer_unavailable
   \<and> statusMessage (fst (handleGuess_resume e n (Inr False) enc sent waited rd s))
       = Some msg_signer_unavailable
   \<and> statusMessage (fst (decryptCiphertext_resume cipher (Inr False) sig ans s))
       = Some msg_signer_unavailable
   \<and> (\<not> truthy (encryptedResult s) \<or> encryptedResult s = Some ZERO_CIPHERTEXT \<longrightarrow>
        manualDecrypt_begin e kp eip s = (Returned, s\<lparr>statusMessage := Some msg_no_data\<rparr>, []))
   \<and> (truthy (encryptedResult s) \<and> encryptedResult s \<noteq> Some ZERO_CIPHERTEXT
        \<and> \<not> isContractConfigured e \<longrightarrow>
        manualDecrypt_begin e kp eip s =
          (Returned, s\<lparr>statusMessage := Some msg_not_configured\<rparr>, []))
   \<and> list_all (\<lambda>m. m \<noteq> [])
        [msg_join_no_wallet, msg_guess_no_wallet, msg_not_configured, msg_not_joined,
         msg_invalid_input, msg_engine_offline, msg_signer_unavailable, msg_no_data]"
proof (intro conjI impI)
  assume "\<not> fheInstance e \<or> \<not> truthy (address e) \<or> \<not> isContractConfigured e"
  then show "decryptCiphertext_begin e kp eip cipher s = (Returned, s, [])"
    by (auto simp add: decryptCiphertext_begin_def)
next
  assume "\<not> truthy (address e)"
  then show "handleJoin_begin e s = (Returned, s\<lparr>statusMessage := Some msg_join_no_wallet\<rparr>)"
    and "handleGuess_begin e s = (Returned, s\<lparr>statusMessage := Some msg_guess_no_wallet\<rparr>)"
    by (simp_all add: handleJoin_begin_def handleGuess_begin_def)
next
  assume "truthy (address e) \<and> \<not> isContractConfigured e"
  then show "handleJoin_begin e s = (Returned, s\<lparr>statusMessage := Some msg_not_configured\<rparr>)"
    and "handleGuess_begin e s = (Returned, s\<lparr>statusMessage := Some msg_not_configured\<rparr>)"
    by (simp_all add: handleJoin_begin_def handleGuess_begin_def)
next
  assume "truthy (address e) \<and> isContractConfigured e \<and> \<not> hasJoined s"
  then show "handleGuess_begin e s = (Returned, s\<lparr>statusMessage := Some msg_not_joined\<rparr>)"
    by (simp add: handleGuess_begin_def)
next
  assume "truthy (address e) \<and> isContractConfigured e \<and> hasJoined s
        \<and> invalidGuess (guessNumber (guessValue s))"
  then show "handleGuess_begin e s = (Returned, s\<lparr>statusMessage := Some msg_invalid_input\<rparr>)"
    by (simp add: handleGuess_begin_def)
next
  assume "truthy (address e) \<and> isContractConfigured e \<and> hasJoined s
        \<and> \<not> invalidGuess (guessNumber (guessValue s)) \<and> \<not> fheInstance e"
  then show "handleGuess_begin e s = (Returned, s\<lparr>statusMessage := Some msg_engine_offline\<rparr>)"
    by (simp add: handleGuess_begin_def)
next
  show "statusMessage (fst (handleJoin_resume e (Inr False) sent waited rd s))
       = Some msg_signer_unavailable"
    by (simp add: handleJoin_resume_def joinFailed_def errorMessage_def)
next
  show "statusMessage (fst (handleGuess_resume e n (Inr False) enc sent waited rd s))
       = Some msg_signer_unavailable"
    by (simp add: handleGuess_resume_def guessFailed_def errorMessage_def)
next
  show "statusMessage (fst (decryptCiphertext_resume cipher (Inr False) sig ans s))
       = Some msg_signer_unavailable"
    by (simp add: decryptCiphertext_resume_def decryptFailed_def errorMessage_def)
next
  assume "\<not> truthy (encryptedResult s) \<or> encryptedResult s = Some ZERO_CIPHERTEXT"
  then show "manualDecrypt_begin e kp eip s = (Returned, s\<lparr>statusMessage := Some msg_no_data\<rparr>, [])"
    by (auto simp add: manualDecrypt_begin_def truthy_def split: option.splits)
next
  assume "truthy (encryptedResult s) \<and> encryptedResult s \<noteq> Some ZERO_CIPHERTEXT
        \<and> \<not> isContractConfigured e"
  then show "manualDecrypt_begin e kp eip s =
          (Returned, s\<lparr>statusMessage := Some msg_not_configured\<rparr>, [])"
    by (auto simp add: manualDecrypt_begin_def truthy_def split: option.splits)
next
  show "list_all (\<lambda>m. m \<noteq> [])
        [msg_join_no_wallet, msg_guess_no_wallet, msg_not_configured, msg_not_joined,
         msg_invalid_input, msg_engine_offline, msg_signer_unavailable, msg_no_data]"
    by (simp add: msg_join_no_wallet_def msg_guess_no_wallet_def msg_not_configured_def
        msg_not_joined_def msg_invalid_input_def msg_engine_offline_def
        msg_signer_unavailable_def msg_no_data_def ascii_def)
qed


theorem decrypt_silent_return_witness:
  "decryptCiphertext_begin (readyEnv\<lparr>fheInstance := False\<rparr>) (Inr ()) (Inr ()) handleA
       pendingState = (Returned, pendingState, [])
   \<and> decryptCiphertext_begin (readyEnv\<lparr>address := None\<rparr>) (Inr ()) (Inr ()) handleA
       pendingState = (Returned, pendingState, [])
   \<and> decryptCiphertext_begin (readyEnv\<lparr>contractAddress := None\<rparr>) (Inr ()) (Inr ()) handleA
       pendingState = (Returned, pendingState, [])
   \<and> handleJoin_begin (readyEnv\<lparr>address := None\<rparr>) pendingState =
       (Returned, pendingState\<lparr>statusMessage := Some msg_join_no_wallet\<rparr>)
   \<and> handleGuess_begin (readyEnv\<lparr>contractAddress := None\<rparr>) pendingState =
       (Returned, pendingState\<lparr>statusMessage := Some msg_not_configured\<rparr>)
   \<and> handleGuess_begin readyEnv initialState =
       (Returned, initialState\<lparr>statusMessage := Some msg_not_joined\<rparr>)
   \<and> handleGuess_begin readyEnv (joinedState\<lparr>guessValue := ascii ''abc''\<rparr>) =
       (Returned, joinedState\<lparr>guessValue := ascii ''abc'', statusMessage := Some msg_invalid_input\<rparr>)
   \<and> handleGuess_begin (readyEnv\<lparr>fheInstance := False\<rparr>)
        (joinedState\<lparr>guessValue := ascii ''7''\<rparr>) =
       (Returned, joinedState\<lparr>guessValue := ascii ''7'', statusMessage := Some msg_engine_offline\<rparr>)
   \<and> manualDecrypt_begin readyEnv (Inr ()) (Inr ()) joinedState =
       (Returned, joinedState\<lparr>statusMessage := Some msg_no_data\<rparr>, [])
   \<and> manualDecrypt_begin (readyEnv\<lparr>contractAddress := None\<rparr>) (Inr ()) (Inr ()) pendingState =
       (Returned, pendingState\<lparr>statusMessage := Some msg_not_configured\<rparr>, [])"
proof -
  have upd: "\<not> truthy None" "\<And>e. isContractConfigured (e\<lparr>contractAddress := None\<rparr>) = False"
    "\<And>e b. isContractConfigured (e\<lparr>fheInstance := b\<rparr>) = isContractConfigured e"
    "\<And>e a. isContractConfigured (e\<lparr>address := a\<rparr>) = isContractConfigured e"
    by (simp_all add: truthy_def isContractConfigured_def)
  note env = readyEnv_fields upd
  have st: "hasJoined pendingState" "\<not> hasJoined initialState"
    "\<And>v. hasJoined (joinedState\<lparr>guessValue := v\<rparr>)"
    "encryptedResult joinedState = Some ZERO_CIPHERTEXT"
    "encryptedResult pendingState = Some handleA"
    by (simp_all add: pendingState_def joinedState_def initialState_def)
  have a: "decryptCiphertext_begin (readyEnv\<lparr>fheInstance := False\<rparr>) (Inr ()) (Inr ()) handleA
       pendingState = (Returned, pendingState, [])"
    using decrypt_silent_return [where e = "readyEnv\<lparr>fheInstance := False\<rparr>"
        and s = pendingState, THEN conjunct1]
    by simp
  have b: "decryptCiphertext_begin (readyEnv\<lparr>address := None\<rparr>) (Inr ()) (Inr ()) handleA
       pendingState = (Returned, pendingState, [])"
    using decrypt_silent_return [where e = "readyEnv\<lparr>address := None\<rparr>"
        and s = pendingState, THEN conjunct1]
    by (simp add: env)
  have c: "decryptCiphertext_begin (readyEnv\<lparr>contractAddress := None\<rparr>) (Inr ()) (Inr ()) handleA
       pendingState = (Returned, pendingState, [])"
    using decrypt_silent_return [where e = "readyEnv\<lparr>contractAddress := None\<rparr>"
        and s = pendingState, THEN conjunct1]
    by (simp add: env)
  have d: "handleJoin_begin (readyEnv\<lparr>address := None\<rparr>) pendingState =
       (Returned, pendingState\<lparr>statusMessage := Some msg_join_no_wallet\<rparr>)"
    using decrypt_silent_return [where e = "readyEnv\<lparr>address := None\<rparr>"
        and s = pendingState, THEN conjunct2, THEN conjunct1]
    by (simp add: env)
  have f: "handleGuess_begin (readyEnv\<lparr>contractAddress := None\<rparr>) pendingState =
       (Returned, pendingState\<lparr>statusMessage := Some msg_not_configured\<rparr>)"
    using decrypt_silent_return [where e = "readyEnv\<lparr>contractAddress := None\<rparr>"
        and s = pendingState, THEN conjunct2, THEN conjunct2, THEN conjunct1]
    by (simp add: env)
  have g: "handleGuess_begin readyEnv initialState =
       (Returned, initialState\<lparr>statusMessage := Some msg_not_joined\<rparr>)"
    using decrypt_silent_return [where e = readyEnv and s = initialState,
        THEN conjunct2, THEN conjunct2, THEN conjunct2, THEN conjunct1]
    by (simp add: env st)
  have h: "handleGuess_begin readyEnv (joinedState\<lparr>guessValue := ascii ''abc''\<rparr>) =
       (Returned, joinedState\<lparr>guessValue := ascii ''abc'', statusMessage := Some msg_invalid_input\<rparr>)"
    using decrypt_silent_return [where e = readyEnv
        and s = "joinedState\<lparr>guessValue := ascii ''abc''\<rparr>",
        THEN conjunct2, THEN conjunct2, THEN conjunct2, THEN conjunct2, THEN conjunct1]
    by (simp add: env st invalidGuess_examples)
  have i: "handleGuess_begin (readyEnv\<lparr>fheInstance := False\<rparr>)
        (joinedState\<lparr>guessValue := ascii ''7''\<rparr>) =
       (Returned, joinedState\<lparr>guessValue := ascii ''7'', statusMessage := Some msg_engine_offline\<rparr>)"
    using decrypt_silent_return [where e = "readyEnv\<lparr>fheInstance := False\<rparr>"
        and s = "joinedState\<lparr>guessValue := ascii ''7''\<rparr>",
        THEN conjunct2, THEN conjunct2, THEN conjunct2, THEN conjunct2, THEN conjunct2,
        THEN conjunct1]
    by (simp add: env st invalidGuess_examples)
  have j: "manualDecrypt_begin readyEnv (Inr ()) (Inr ()) joinedState =
       (Returned, joinedState\<lparr>statusMessage := Some msg_no_data\<rparr>, [])"
    using decrypt_silent_return [where e = readyEnv and s = joinedState,
        THEN conjunct2, THEN conjunct2, THEN conjunct2, THEN conjunct2, THEN conjunct2,
        THEN conjunct2, THEN conjunct2, THEN conjunct2, THEN conjunct2, THEN conjunct1]
    by (simp add: st)
  have k: "manualDecrypt_begin (readyEnv\<lparr>contractAddress := None\<rparr>) (Inr ()) (Inr ()) pendingState =
       (Returned, pendingState\<lparr>statusMessage := Some msg_not_configured\<rparr>, [])"
    using decrypt_silent_return [where e = "readyEnv\<lparr>contractAddress := None\<rparr>"
        and s = pendingState,
        THEN conjunct2, THEN conjunct2, THEN conjunct2, THEN conjunct2, THEN conjunct2,
        THEN conjunct2, THEN conjunct2, THEN conjunct2, THEN conjunct2, THEN conjunct2,
        THEN conjunct1]
    by (simp add: env st truthy_def handles_distinct)
  show ?thesis
    by (intro conjI) (rule a, rule b, rule c, rule d, rule f, rule g, rule h, rule i, rule j,
      rule k)
qed

end
